theory Spec2Isabelle
  imports Complex_Main "HOL-Library.Multiset"
begin

section \<open>Python values used by the scoring algorithm\<close>

text \<open>
  The embedding follows \<^verbatim>\<open>src/gpt_investing/algorithm.py\<close>.

  A Python \<^verbatim>\<open>float\<close> is a finite number, one of the two infinities, or a NaN. The code
  tests for exactly this distinction (\<^verbatim>\<open>math.isfinite\<close>), so the model keeps it. The
  arithmetic of finite values is exact: rounding to binary64, overflow and the sign of zero are
  not part of the model. Every statement below about a numeric result is a statement about
  this exact arithmetic.
\<close>

datatype pyfloat = Fin real | PInf | NInf | NaN

fun isfinite :: "pyfloat \<Rightarrow> bool" where
  "isfinite (Fin x) = True"
| "isfinite PInf = False"
| "isfinite NInf = False"
| "isfinite NaN = False"

text \<open>
  Exceptions are values. Each carries the text that \<^verbatim>\<open>str(exc)\<close> returns.
  \<open>ExternalError\<close> stands for whatever the market-data library raises.
\<close>

datatype exn =
    AnalysisError string
  | ZeroDivisionError string
  | ValueError string
  | IndexError string
  | KeyError string
  | ExternalError string

fun exn_str :: "exn \<Rightarrow> string" where
  "exn_str (AnalysisError m) = m"
| "exn_str (ZeroDivisionError m) = m"
| "exn_str (ValueError m) = m"
| "exn_str (IndexError m) = m"
| "exn_str (KeyError m) = m"
| "exn_str (ExternalError m) = m"

subsection \<open>Float arithmetic\<close>

fun fl_neg :: "pyfloat \<Rightarrow> pyfloat" where
  "fl_neg (Fin x) = Fin (- x)"
| "fl_neg PInf = NInf"
| "fl_neg NInf = PInf"
| "fl_neg NaN = NaN"

fun fl_add :: "pyfloat \<Rightarrow> pyfloat \<Rightarrow> pyfloat" where
  "fl_add (Fin x) (Fin y) = Fin (x + y)"
| "fl_add NaN _ = NaN"
| "fl_add _ NaN = NaN"
| "fl_add PInf NInf = NaN"
| "fl_add NInf PInf = NaN"
| "fl_add PInf _ = PInf"
| "fl_add _ PInf = PInf"
| "fl_add NInf _ = NInf"
| "fl_add _ NInf = NInf"

definition fl_sub :: "pyfloat \<Rightarrow> pyfloat \<Rightarrow> pyfloat" where
  "fl_sub a b = fl_add a (fl_neg b)"

text \<open>The sign of an infinity multiplied or divided by a finite non-zero value.\<close>

definition signed_inf :: "bool \<Rightarrow> pyfloat" where
  "signed_inf positive = (if positive then PInf else NInf)"

fun fl_mul :: "pyfloat \<Rightarrow> pyfloat \<Rightarrow> pyfloat" where
  "fl_mul (Fin x) (Fin y) = Fin (x * y)"
| "fl_mul NaN _ = NaN"
| "fl_mul _ NaN = NaN"
| "fl_mul PInf (Fin y) = (if y = 0 then NaN else signed_inf (0 < y))"
| "fl_mul NInf (Fin y) = (if y = 0 then NaN else signed_inf (y < 0))"
| "fl_mul (Fin x) PInf = (if x = 0 then NaN else signed_inf (0 < x))"
| "fl_mul (Fin x) NInf = (if x = 0 then NaN else signed_inf (x < 0))"
| "fl_mul PInf PInf = PInf"
| "fl_mul NInf NInf = PInf"
| "fl_mul PInf NInf = NInf"
| "fl_mul NInf PInf = NInf"

text \<open>IEEE division by a divisor that is not zero.\<close>

fun ieee_div :: "pyfloat \<Rightarrow> pyfloat \<Rightarrow> pyfloat" where
  "ieee_div (Fin x) (Fin y) = Fin (x / y)"
| "ieee_div NaN _ = NaN"
| "ieee_div _ NaN = NaN"
| "ieee_div (Fin x) PInf = Fin 0"
| "ieee_div (Fin x) NInf = Fin 0"
| "ieee_div PInf (Fin y) = signed_inf (0 \<le> y)"
| "ieee_div NInf (Fin y) = signed_inf (y < 0)"
| "ieee_div PInf PInf = NaN"
| "ieee_div PInf NInf = NaN"
| "ieee_div NInf PInf = NaN"
| "ieee_div NInf NInf = NaN"

text \<open>
  Python's \<^verbatim>\<open>a / b\<close> on floats raises \<^verbatim>\<open>ZeroDivisionError\<close> when \<open>b\<close> is zero,
  whatever \<open>a\<close> is, and is IEEE division otherwise.
\<close>

definition truediv :: "pyfloat \<Rightarrow> pyfloat \<Rightarrow> exn + pyfloat" where
  "truediv a b =
     (if b = Fin 0 then Inl (ZeroDivisionError ''float division by zero'')
      else Inr (ieee_div a b))"

text \<open>\<^verbatim>\<open>x ** 2\<close>.\<close>

definition fl_square :: "pyfloat \<Rightarrow> pyfloat" where
  "fl_square a = fl_mul a a"

text \<open>\<^verbatim>\<open>math.sqrt\<close> raises \<^verbatim>\<open>ValueError\<close> on a negative argument.\<close>

fun math_sqrt :: "pyfloat \<Rightarrow> exn + pyfloat" where
  "math_sqrt (Fin x) =
     (if x < 0 then Inl (ValueError ''math domain error'') else Inr (Fin (sqrt x)))"
| "math_sqrt PInf = Inr PInf"
| "math_sqrt NInf = Inl (ValueError ''math domain error'')"
| "math_sqrt NaN = Inr NaN"

text \<open>\<^verbatim>\<open>sum(xs)\<close> starts from 0 and adds the elements from left to right.\<close>

definition py_sum :: "pyfloat list \<Rightarrow> pyfloat" where
  "py_sum xs = foldl fl_add (Fin 0) xs"

subsection \<open>Sequences\<close>

text \<open>
  \<^verbatim>\<open>xs[i]\<close>: a negative index counts from the end, an index out of range raises
  \<^verbatim>\<open>IndexError\<close>.
\<close>

definition py_index :: "'a list \<Rightarrow> int \<Rightarrow> exn + 'a" where
  "py_index xs i =
     (if 0 \<le> i \<and> i < int (length xs) then Inr (xs ! nat i)
      else if i < 0 \<and> - int (length xs) \<le> i then Inr (xs ! nat (int (length xs) + i))
      else Inl (IndexError ''list index out of range''))"

text \<open>\<^verbatim>\<open>xs[-k:]\<close> for a positive \<open>k\<close>: the last \<open>k\<close> elements, or all of them.\<close>

definition py_last_n :: "nat \<Rightarrow> 'a list \<Rightarrow> 'a list" where
  "py_last_n k xs = drop (length xs - k) xs"

text \<open>
  \<^verbatim>\<open>xs[:k]\<close> for an integer \<open>k\<close>: the first \<open>k\<close> elements when \<open>k\<close> is not negative,
  all but the last \<open>-k\<close> elements when it is.
\<close>

definition py_slice_to :: "'a list \<Rightarrow> int \<Rightarrow> 'a list" where
  "py_slice_to xs k =
     (if k < 0 then take (nat (int (length xs) + k)) xs else take (nat k) xs)"

section \<open>Metric computation\<close>

definition LOOKBACK_DAYS :: nat where
  "LOOKBACK_DAYS = 21"

definition ANNUALIZATION_FACTOR :: pyfloat where
  "ANNUALIZATION_FACTOR = Fin (sqrt 252)"

definition compute_momentum :: "pyfloat list \<Rightarrow> exn + pyfloat" where
  "compute_momentum close_prices =
     (if length close_prices \<le> LOOKBACK_DAYS
      then Inl (AnalysisError ''Not enough price history to compute momentum'')
      else (case py_index close_prices (- 1) of
              Inl e \<Rightarrow> Inl e
            | Inr last_close \<Rightarrow>
                (case py_index close_prices (- (int LOOKBACK_DAYS + 1)) of
                   Inl e \<Rightarrow> Inl e
                 | Inr base_close \<Rightarrow>
                     (case truediv last_close base_close of
                        Inl e \<Rightarrow> Inl e
                      | Inr q \<Rightarrow> Inr (fl_sub q (Fin 1))))))"

definition compute_volatility :: "pyfloat list \<Rightarrow> exn + pyfloat" where
  "compute_volatility returns =
     (if length returns < LOOKBACK_DAYS
      then Inl (AnalysisError ''Not enough return history to compute volatility'')
      else (case truediv (py_sum (py_last_n LOOKBACK_DAYS returns)) (Fin (real LOOKBACK_DAYS)) of
              Inl e \<Rightarrow> Inl e
            | Inr mean \<Rightarrow>
                (case truediv
                        (py_sum (map (\<lambda>r. fl_square (fl_sub r mean))
                                   (py_last_n LOOKBACK_DAYS returns)))
                        (Fin (real LOOKBACK_DAYS)) of
                   Inl e \<Rightarrow> Inl e
                 | Inr variance \<Rightarrow>
                     (case math_sqrt variance of
                        Inl e \<Rightarrow> Inl e
                      | Inr sd \<Rightarrow> Inr (fl_mul sd ANNUALIZATION_FACTOR)))))"

section \<open>Dictionaries\<close>

text \<open>
  A Python \<^verbatim>\<open>dict\<close> keeps its keys in insertion order and holds each key once. It is
  modelled as an association list; \<open>dict_set\<close> is \<^verbatim>\<open>d[k] = v\<close>: the value of a key that
  is already there is replaced where it stands, a new key goes to the end.
\<close>

type_synonym ('k, 'v) dict = "('k \<times> 'v) list"

fun dict_set :: "('k, 'v) dict \<Rightarrow> 'k \<Rightarrow> 'v \<Rightarrow> ('k, 'v) dict" where
  "dict_set [] k v = [(k, v)]"
| "dict_set ((k', v') # d) k v =
     (if k' = k then (k', v) # d else (k', v') # dict_set d k v)"

definition keys :: "('k, 'v) dict \<Rightarrow> 'k set" where
  "keys d = fst ` set d"

text \<open>\<^verbatim>\<open>d[k]\<close> raises \<^verbatim>\<open>KeyError\<close> for a key that is not there.\<close>

definition getitem :: "(string, 'v) dict \<Rightarrow> string \<Rightarrow> exn + 'v" where
  "getitem d k = (case map_of d k of None \<Rightarrow> Inl (KeyError k) | Some v \<Rightarrow> Inr v)"

section \<open>Cross-sectional normalization\<close>

text \<open>
  \<^verbatim>\<open>math.isclose(a, b)\<close> with its default tolerances \<^verbatim>\<open>rel_tol=1e-09\<close> and
  \<^verbatim>\<open>abs_tol=0.0\<close>, on finite arguments.
\<close>

definition rel_tol :: real where
  "rel_tol = 1 / 10 ^ 9"

definition abs_tol :: real where
  "abs_tol = 0"

definition isclose :: "real \<Rightarrow> real \<Rightarrow> bool" where
  "isclose a b =
     (a = b \<or>
      (let diff = \<bar>b - a\<bar>
       in diff \<le> \<bar>rel_tol * b\<bar> \<or> diff \<le> \<bar>rel_tol * a\<bar> \<or> diff \<le> abs_tol))"

text \<open>
  \<open>usable\<close> is the condition of the comprehension that builds \<open>valid\<close>: the value is not
  \<^verbatim>\<open>None\<close> and is finite. \<open>valid_entries\<close> is the comprehension: it keeps the
  entries whose value is usable, in the order of \<open>metric\<close>, with the finite number.
\<close>

fun usable :: "pyfloat option \<Rightarrow> bool" where
  "usable None = False"
| "usable (Some v) = isfinite v"

fun valid_entries :: "(string, pyfloat option) dict \<Rightarrow> (string, real) dict" where
  "valid_entries [] = []"
| "valid_entries ((ticker, Some (Fin x)) # metric) = (ticker, x) # valid_entries metric"
| "valid_entries ((ticker, _) # metric) = valid_entries metric"

text \<open>
  \<open>normalize\<close> is \<^verbatim>\<open>_normalize\<close>. \<^verbatim>\<open>min\<close> and \<^verbatim>\<open>max\<close> are taken after the test
  \<^verbatim>\<open>if not valid\<close>, so they see at least one value. In the last loop a ticker that is
  in \<open>valid\<close> has there the value of its own entry of \<open>metric\<close>, since both are dictionaries
  over the same keys; the model reads the finite value from \<open>valid\<close>.
\<close>

definition normalize :: "(string, pyfloat option) dict \<Rightarrow> bool \<Rightarrow> (string, real) dict" where
  "normalize metric higher_is_better =
     (let valid = valid_entries metric
      in case map snd valid of
           [] \<Rightarrow> map (\<lambda>(ticker, value). (ticker, 0)) metric
         | v # vs \<Rightarrow>
             (let min_value = fold min vs v;
                  max_value = fold max vs v
              in if isclose min_value max_value
                 then (let base_score = 1
                       in map (\<lambda>(ticker, value).
                                 (ticker, if ticker \<in> keys valid then base_score else 0)) metric)
                 else (let scale = max_value - min_value
                       in map (\<lambda>(ticker, value).
                                 (case map_of valid ticker of
                                    None \<Rightarrow> (ticker, 0)
                                  | Some x \<Rightarrow>
                                      (let score = (x - min_value) / scale
                                       in (ticker, if \<not> higher_is_better then 1 - score else score))))
                            metric)))"

section \<open>Per-ticker metric extraction\<close>

text \<open>
  The dataclasses of the module. The field \<^verbatim>\<open>last_updated\<close> of \<^verbatim>\<open>StockAnalysis\<close> is a
  wall-clock timestamp that nothing reads; it is left out.
\<close>

record StockAnalysis =
  ticker :: string
  momentum_21d :: "pyfloat option"
  volatility_21d :: "pyfloat option"
  pe_ratio :: "pyfloat option"
  pb_ratio :: "pyfloat option"
  free_cash_flow_yield :: "pyfloat option"
  market_cap :: "pyfloat option"

record RankedStock =
  ticker :: string
  composite_score :: real
  value_score :: real
  momentum_score :: real
  risk_score :: real
  analysis :: StockAnalysis

record AnalysisSummary =
  ranked :: "RankedStock list"
  failures :: "(string, string) dict"

text \<open>
  The market-data library is outside the repository. What \<^verbatim>\<open>_fetch_analysis\<close> reads from
  it is the input of the model: for one ticker, the price history of a period (the closing
  prices in order, and the list \<^verbatim>\<open>pct_change().dropna().tolist()\<close> that the data-frame
  library derives from them), the \<^verbatim>\<open>fast_info\<close> lookup (\<^verbatim>\<open>info.get(key)\<close> is a
  function from keys to optional numbers), and the cash-flow table (row label and row
  values). Each of the three accesses may raise instead. A history is empty when it has no
  rows; a cash-flow table is empty when it has no rows or no columns.
\<close>

record price_history =
  close :: "pyfloat list"
  close_pct_change :: "pyfloat list"

record ticker_data =
  history :: "string \<Rightarrow> exn + price_history"
  fast_info :: "exn + (string \<Rightarrow> pyfloat option)"
  cashflow :: "exn + (string, pyfloat list) dict option"

definition frame_empty :: "(string, pyfloat list) dict \<Rightarrow> bool" where
  "frame_empty frame = (case frame of [] \<Rightarrow> True | (label, row) # _ \<Rightarrow> row = [])"

text \<open>Truth value of an optional number: \<^verbatim>\<open>None\<close> and zero are false.\<close>

fun truthy :: "pyfloat option \<Rightarrow> bool" where
  "truthy None = False"
| "truthy (Some v) = (v \<noteq> Fin 0)"

definition py_or :: "pyfloat option \<Rightarrow> pyfloat option \<Rightarrow> pyfloat option" where
  "py_or a b = (if truthy a then a else b)"

text \<open>\<^verbatim>\<open>float(cash_flow.loc[label].iloc[0])\<close>.\<close>

definition first_of_row :: "(string, pyfloat list) dict \<Rightarrow> string \<Rightarrow> exn + pyfloat" where
  "first_of_row frame label =
     (case getitem frame label of Inl e \<Rightarrow> Inl e | Inr row \<Rightarrow> py_index row 0)"

definition free_cash_flow_of :: "(string, pyfloat list) dict option \<Rightarrow> exn + pyfloat option" where
  "free_cash_flow_of cash_flow =
     (case cash_flow of
        None \<Rightarrow> Inr None
      | Some frame \<Rightarrow>
          if frame_empty frame then Inr None
          else if ''Free Cash Flow'' \<in> keys frame
          then (case first_of_row frame ''Free Cash Flow'' of
                  Inl e \<Rightarrow> Inl e | Inr v \<Rightarrow> Inr (Some v))
          else if ''FreeCashFlow'' \<in> keys frame
          then (case first_of_row frame ''FreeCashFlow'' of
                  Inl e \<Rightarrow> Inl e | Inr v \<Rightarrow> Inr (Some v))
          else Inr None)"

definition compute_fcf_yield :: "pyfloat option \<Rightarrow> pyfloat option \<Rightarrow> exn + pyfloat option" where
  "compute_fcf_yield free_cash_flow market_capitalisation =
     (case (free_cash_flow, market_capitalisation) of
        (Some fcf, Some cap) \<Rightarrow>
          if truthy (Some cap)
          then (case truediv fcf cap of Inl e \<Rightarrow> Inl e | Inr y \<Rightarrow> Inr (Some y))
          else Inr None
      | _ \<Rightarrow> Inr None)"

text \<open>\<open>fetch_analysis\<close> is \<^verbatim>\<open>_fetch_analysis\<close>, in the order in which the source acts.\<close>

definition fetch_analysis :: "(string \<Rightarrow> ticker_data) \<Rightarrow> string \<Rightarrow> string \<Rightarrow> exn + StockAnalysis" where
  "fetch_analysis yf tick period =
     (case history (yf tick) period of
        Inl e \<Rightarrow> Inl e
      | Inr hist \<Rightarrow>
          if close hist = [] then Inl (AnalysisError ''No price history available'')
          else
          (case compute_momentum (close hist) of
            Inl e \<Rightarrow> Inl e
          | Inr momentum \<Rightarrow>
          (case compute_volatility (close_pct_change hist) of
            Inl e \<Rightarrow> Inl e
          | Inr volatility \<Rightarrow>
          (case fast_info (yf tick) of
            Inl e \<Rightarrow> Inl e
          | Inr info \<Rightarrow>
          (let pe = py_or (info ''pe_ratio'') (info ''trailing_pe'');
               pb = py_or (info ''pb_ratio'') (info ''price_to_book'');
               cap = info ''market_cap''
           in case cashflow (yf tick) of
                Inl e \<Rightarrow> Inl e
              | Inr cash_flow \<Rightarrow>
              (case free_cash_flow_of cash_flow of
                Inl e \<Rightarrow> Inl e
              | Inr free_cash_flow \<Rightarrow>
              (case compute_fcf_yield free_cash_flow cap of
                Inl e \<Rightarrow> Inl e
              | Inr fcf_yield \<Rightarrow>
                  Inr \<lparr> StockAnalysis.ticker = tick,
                        momentum_21d = Some momentum,
                        volatility_21d = Some volatility,
                        pe_ratio = pe,
                        pb_ratio = pb,
                        free_cash_flow_yield = fcf_yield,
                        market_cap = cap \<rparr>)))))))"

section \<open>Universe scoring\<close>

text \<open>
  The first loop of \<^verbatim>\<open>analyze_universe\<close>. An \<^verbatim>\<open>AnalysisError\<close> of one ticker is
  recorded and the loop goes on; any other exception ends the run with an
  \<^verbatim>\<open>AnalysisError\<close> that names the ticker and the cause.
\<close>

fun fetch_all ::
  "(string \<Rightarrow> exn + StockAnalysis) \<Rightarrow> string list \<Rightarrow>
   (string, StockAnalysis) dict \<Rightarrow> (string, string) dict \<Rightarrow>
   exn + ((string, StockAnalysis) dict \<times> (string, string) dict)" where
  "fetch_all fetch [] analyses fails = Inr (analyses, fails)"
| "fetch_all fetch (tick # rest) analyses fails =
     (case fetch tick of
        Inr a \<Rightarrow> fetch_all fetch rest (dict_set analyses tick a) fails
      | Inl (AnalysisError msg) \<Rightarrow> fetch_all fetch rest analyses (dict_set fails tick msg)
      | Inl exc \<Rightarrow> Inl (AnalysisError (''Failed to analyze '' @ tick @ '': '' @ exn_str exc)))"

text \<open>\<^verbatim>\<open>sep.join(parts)\<close>.\<close>

fun join :: "string \<Rightarrow> string list \<Rightarrow> string" where
  "join sep [] = []"
| "join sep [x] = x"
| "join sep (x # y # ys) = x @ sep @ join sep (y # ys)"

definition no_tickers_message :: "(string, string) dict \<Rightarrow> string" where
  "no_tickers_message fails =
     ''Unable to analyze any tickers. Reasons: '' @
     join '', '' (map (\<lambda>(tick, reason). tick @ '' ('' @ reason @ '')'') fails)"

text \<open>
  One conditional \<^verbatim>\<open>value_components.append(scores[ticker])\<close>: the list of what it
  appends.
\<close>

definition value_component ::
  "pyfloat option \<Rightarrow> (string, real) dict \<Rightarrow> string \<Rightarrow> exn + real list" where
  "value_component field scores tick =
     (if field \<noteq> None
      then (case getitem scores tick of Inl e \<Rightarrow> Inl e | Inr s \<Rightarrow> Inr [s])
      else Inr [])"

text \<open>The body of the scoring loop, for one item of \<open>analyses\<close>.\<close>

definition score_ticker ::
  "(string, StockAnalysis) dict \<Rightarrow>
   (string, real) dict \<Rightarrow> (string, real) dict \<Rightarrow> (string, real) dict \<Rightarrow>
   (string, real) dict \<Rightarrow> (string, real) dict \<Rightarrow>
   real \<Rightarrow> real \<Rightarrow> real \<Rightarrow> string \<Rightarrow> StockAnalysis \<Rightarrow> exn + RankedStock" where
  "score_ticker analyses pe_scores pb_scores fcf_scores momentum_scores risk_scores
       value_weight momentum_weight risk_weight tick an =
     (case getitem analyses tick of
        Inl e \<Rightarrow> Inl e
      | Inr a \<Rightarrow>
     (case value_component (pe_ratio a) pe_scores tick of
        Inl e \<Rightarrow> Inl e
      | Inr c1 \<Rightarrow>
     (case value_component (pb_ratio a) pb_scores tick of
        Inl e \<Rightarrow> Inl e
      | Inr c2 \<Rightarrow>
     (case value_component (free_cash_flow_yield a) fcf_scores tick of
        Inl e \<Rightarrow> Inl e
      | Inr c3 \<Rightarrow>
     (let value_components = c1 @ c2 @ c3;
          val = (if value_components \<noteq> []
                 then sum_list value_components / real (length value_components)
                 else 0)
      in case getitem momentum_scores tick of
           Inl e \<Rightarrow> Inl e
         | Inr mom \<Rightarrow>
        (case getitem risk_scores tick of
           Inl e \<Rightarrow> Inl e
         | Inr risk \<Rightarrow>
             Inr \<lparr> RankedStock.ticker = tick,
                   composite_score =
                     value_weight * val + momentum_weight * mom + risk_weight * risk,
                   value_score = val,
                   momentum_score = mom,
                   risk_score = risk,
                   analysis = an \<rparr>))))))"

fun score_all ::
  "(string \<Rightarrow> StockAnalysis \<Rightarrow> exn + RankedStock) \<Rightarrow>
   (string, StockAnalysis) dict \<Rightarrow> exn + RankedStock list" where
  "score_all score [] = Inr []"
| "score_all score ((tick, an) # items) =
     (case score tick an of
        Inl e \<Rightarrow> Inl e
      | Inr r \<Rightarrow>
          (case score_all score items of Inl e \<Rightarrow> Inl e | Inr rs \<Rightarrow> Inr (r # rs)))"

text \<open>
  \<^verbatim>\<open>xs.sort(key=f, reverse=True)\<close>: the list is reversed, sorted by a stable ascending
  sort, and reversed again. Elements with equal keys keep their order.
\<close>

definition sort_reverse :: "('a \<Rightarrow> real) \<Rightarrow> 'a list \<Rightarrow> 'a list" where
  "sort_reverse f xs = rev (sort_key f (rev xs))"

definition truncate :: "int option \<Rightarrow> 'a list \<Rightarrow> 'a list" where
  "truncate top_n xs = (case top_n of None \<Rightarrow> xs | Some k \<Rightarrow> py_slice_to xs k)"

text \<open>
  \<open>analyze_universe\<close>. The weights are finite floats. The market data \<open>yf\<close> does not change
  during a run: asking twice for the same ticker gives the same answer.
\<close>

definition analyze_universe ::
  "(string \<Rightarrow> ticker_data) \<Rightarrow> string list \<Rightarrow> string \<Rightarrow>
   real \<Rightarrow> real \<Rightarrow> real \<Rightarrow> int option \<Rightarrow> exn + AnalysisSummary" where
  "analyze_universe yf tickers period value_weight momentum_weight risk_weight top_n =
     (case fetch_all (\<lambda>tick. fetch_analysis yf tick period) tickers [] [] of
        Inl e \<Rightarrow> Inl e
      | Inr (analyses, fails) \<Rightarrow>
          if analyses = [] then Inl (AnalysisError (no_tickers_message fails))
          else
          (let pe_ratios = map (\<lambda>(tick, a). (tick, pe_ratio a)) analyses;
               pb_ratios = map (\<lambda>(tick, a). (tick, pb_ratio a)) analyses;
               fcf_yields = map (\<lambda>(tick, a). (tick, free_cash_flow_yield a)) analyses;
               momenta = map (\<lambda>(tick, a). (tick, momentum_21d a)) analyses;
               volatilities = map (\<lambda>(tick, a). (tick, volatility_21d a)) analyses;
               pe_scores = normalize pe_ratios False;
               pb_scores = normalize pb_ratios False;
               fcf_scores = normalize fcf_yields True;
               momentum_scores = normalize momenta True;
               risk_scores = normalize volatilities False
           in case score_all
                     (score_ticker analyses pe_scores pb_scores fcf_scores
                        momentum_scores risk_scores value_weight momentum_weight risk_weight)
                     analyses of
                Inl e \<Rightarrow> Inl e
              | Inr scored \<Rightarrow>
                  Inr \<lparr> ranked = truncate top_n (sort_reverse composite_score scored),
                        failures = fails \<rparr>))"

section \<open>Notions used in the statements\<close>

text \<open>
  The definitions of this section are not part of the program. They name what the
  specification talks about: the population standard deviation of a list of numbers, the
  three outcomes of one extraction, the scores of the degenerate case, and the scores of a
  ranked stock.
\<close>

text \<open>
  The population standard deviation: the squared deviations from the mean are divided by
  the number of values, not by one less.
\<close>

definition mean :: "real list \<Rightarrow> real" where
  "mean xs = sum_list xs / real (length xs)"

definition population_variance :: "real list \<Rightarrow> real" where
  "population_variance xs = (\<Sum>x\<leftarrow>xs. (x - mean xs)\<^sup>2) / real (length xs)"

definition population_sd :: "real list \<Rightarrow> real" where
  "population_sd xs = sqrt (population_variance xs)"


text \<open>The scores of a vector whose usable values do not differ: 1 where usable, else 0.\<close>

definition degenerate_scores :: "(string, pyfloat option) dict \<Rightarrow> (string, real) dict" where
  "degenerate_scores metric = map (\<lambda>(tick, value). (tick, if usable value then 1 else 0)) metric"

text \<open>
  The outcome of one extraction: it failed with an \<^verbatim>\<open>AnalysisError\<close> (and its text), it
  raised another exception, or it returned an analysis.
\<close>

fun soft_reason :: "exn + 'a \<Rightarrow> string option" where
  "soft_reason (Inl (AnalysisError m)) = Some m"
| "soft_reason _ = None"

fun unexpected :: "exn + 'a \<Rightarrow> bool" where
  "unexpected (Inl (AnalysisError m)) = False"
| "unexpected (Inl _) = True"
| "unexpected (Inr _) = False"

fun success :: "exn + 'a \<Rightarrow> 'a option" where
  "success (Inr a) = Some a"
| "success (Inl _) = None"

text \<open>The mean of the scores whose raw field is present, 0 when none is.\<close>

definition present_mean :: "(pyfloat option \<times> real) list \<Rightarrow> real" where
  "present_mean entries =
     (let present = map snd (filter (\<lambda>(field, score). field \<noteq> None) entries)
      in if present = [] then 0 else sum_list present / real (length present))"

text \<open>The metric vector of one field over the surviving tickers.\<close>

definition vector_of ::
  "(StockAnalysis \<Rightarrow> pyfloat option) \<Rightarrow> (string, StockAnalysis) dict \<Rightarrow>
   (string, pyfloat option) dict" where
  "vector_of field analyses = map (\<lambda>(tick, a). (tick, field a)) analyses"

text \<open>What the scoring loop stores for one surviving ticker.\<close>

definition scored_by ::
  "(string, StockAnalysis) dict \<Rightarrow> real \<Rightarrow> real \<Rightarrow> real \<Rightarrow> RankedStock \<Rightarrow> bool" where
  "scored_by analyses value_weight momentum_weight risk_weight r =
     (\<exists>pe pb fcf.
        map_of analyses (RankedStock.ticker r) = Some (analysis r)
      \<and> getitem (normalize (vector_of pe_ratio analyses) False) (RankedStock.ticker r) = Inr pe
      \<and> getitem (normalize (vector_of pb_ratio analyses) False) (RankedStock.ticker r) = Inr pb
      \<and> getitem (normalize (vector_of free_cash_flow_yield analyses) True)
            (RankedStock.ticker r) = Inr fcf
      \<and> value_score r =
            present_mean [(pe_ratio (analysis r), pe), (pb_ratio (analysis r), pb),
                          (free_cash_flow_yield (analysis r), fcf)]
      \<and> getitem (normalize (vector_of momentum_21d analyses) True) (RankedStock.ticker r) =
            Inr (momentum_score r)
      \<and> getitem (normalize (vector_of volatility_21d analyses) False) (RankedStock.ticker r) =
            Inr (risk_score r)
      \<and> composite_score r =
            value_weight * value_score r + momentum_weight * momentum_score r
            + risk_weight * risk_score r)"

text \<open>The elements of a list in the order of their first occurrence.\<close>

fun first_occurrences :: "'a list \<Rightarrow> 'a list" where
  "first_occurrences [] = []"
| "first_occurrences (x # xs) = x # filter (\<lambda>y. y \<noteq> x) (first_occurrences xs)"

text \<open>How many elements of a list of \<open>n\<close> the slice \<^verbatim>\<open>[:top_n]\<close> keeps.\<close>

definition cut :: "int option \<Rightarrow> nat \<Rightarrow> nat" where
  "cut top_n n = (case top_n of None \<Rightarrow> n
                  | Some k \<Rightarrow> if k < 0 then n - nat (- k) else min (nat k) n)"

section \<open>A sample market\<close>

text \<open>
  A small market on which the statements are tried. \<open>AAA\<close>, \<open>BBB\<close> and \<open>FFF\<close> have 22
  closing prices and 21 returns; \<open>FFF\<close> reports a market capitalisation of zero, so its
  free-cash-flow yield stays unset. \<open>CCC\<close> has an empty price history, the request for
  \<open>DDD\<close> raises, and every other ticker has five closing prices. The remaining
  definitions are the analyses and the scores that the run on this market produces.
\<close>

definition quiet_returns :: "pyfloat list" where
  "quiet_returns = replicate 21 (Fin 0)"

definition lively_returns :: "pyfloat list" where
  "lively_returns =
     map Fin ([2 / 100, - (2 / 100), 1 / 100, - (1 / 100), 1 / 100, - (1 / 100)] @ replicate 15 0)"

definition no_info :: "string \<Rightarrow> pyfloat option" where
  "no_info key = None"

definition sample_market :: "string \<Rightarrow> ticker_data" where
  "sample_market tick =
     (if tick = ''AAA'' then
        \<lparr> history = (\<lambda>period. Inr \<lparr> close = replicate 21 (Fin 100) @ [Fin 110],
                                     close_pct_change = quiet_returns \<rparr>),
          fast_info = Inr (no_info(''pe_ratio'' := Some (Fin 10), ''pb_ratio'' := Some (Fin 2),
                                   ''market_cap'' := Some (Fin 1000))),
          cashflow = Inr (Some [(''Free Cash Flow'', [Fin 50, Fin 40])]) \<rparr>
      else if tick = ''BBB'' then
        \<lparr> history = (\<lambda>period. Inr \<lparr> close = replicate 21 (Fin 100) @ [Fin 120],
                                     close_pct_change = lively_returns \<rparr>),
          fast_info = Inr (no_info(''trailing_pe'' := Some (Fin 30))),
          cashflow = Inr None \<rparr>
      else if tick = ''CCC'' then
        \<lparr> history = (\<lambda>period. Inr \<lparr> close = [], close_pct_change = [] \<rparr>),
          fast_info = Inr no_info,
          cashflow = Inr None \<rparr>
      else if tick = ''DDD'' then
        \<lparr> history = (\<lambda>period. Inl (ExternalError ''connection reset'')),
          fast_info = Inr no_info,
          cashflow = Inr None \<rparr>
      else if tick = ''FFF'' then
        \<lparr> history = (\<lambda>period. Inr \<lparr> close = replicate 21 (Fin 100) @ [Fin 115],
                                     close_pct_change = quiet_returns \<rparr>),
          fast_info = Inr (no_info(''pe_ratio'' := Some (Fin 20), ''market_cap'' := Some (Fin 0))),
          cashflow = Inr (Some [(''FreeCashFlow'', [Fin 5])]) \<rparr>
      else
        \<lparr> history = (\<lambda>period. Inr \<lparr> close = replicate 5 (Fin 1),
                                     close_pct_change = replicate 4 (Fin 0) \<rparr>),
          fast_info = Inr no_info,
          cashflow = Inr None \<rparr>)"

definition sample_AAA :: StockAnalysis where
  "sample_AAA = \<lparr> StockAnalysis.ticker = ''AAA'', momentum_21d = Some (Fin (1 / 10)),
       volatility_21d = Some (Fin 0), pe_ratio = Some (Fin 10), pb_ratio = Some (Fin 2),
       free_cash_flow_yield = Some (Fin (1 / 20)), market_cap = Some (Fin 1000) \<rparr>"

definition sample_BBB :: StockAnalysis where
  "sample_BBB = \<lparr> StockAnalysis.ticker = ''BBB'', momentum_21d = Some (Fin (1 / 5)),
       volatility_21d = Some (Fin (3 / 25)), pe_ratio = Some (Fin 30), pb_ratio = None,
       free_cash_flow_yield = None, market_cap = None \<rparr>"

definition sample_FFF :: StockAnalysis where
  "sample_FFF = \<lparr> StockAnalysis.ticker = ''FFF'', momentum_21d = Some (Fin (3 / 20)),
       volatility_21d = Some (Fin 0), pe_ratio = Some (Fin 20), pb_ratio = None,
       free_cash_flow_yield = None, market_cap = Some (Fin 0) \<rparr>"

definition sample_ranked_AAA :: RankedStock where
  "sample_ranked_AAA = \<lparr> RankedStock.ticker = ''AAA'', composite_score = 7 / 10,
       value_score = 1, momentum_score = 0, risk_score = 1, analysis = sample_AAA \<rparr>"

definition sample_ranked_BBB :: RankedStock where
  "sample_ranked_BBB = \<lparr> RankedStock.ticker = ''BBB'', composite_score = 3 / 10,
       value_score = 0, momentum_score = 1, risk_score = 0, analysis = sample_BBB \<rparr>"

definition sample_ranked_FFF :: RankedStock where
  "sample_ranked_FFF = \<lparr> RankedStock.ticker = ''FFF'', composite_score = 3 / 5,
       value_score = 1 / 2, momentum_score = 1 / 2, risk_score = 1, analysis = sample_FFF \<rparr>"

definition sample_tickers :: "string list" where
  "sample_tickers = [''BBB'', ''CCC'', ''AAA'', ''FFF'']"

section \<open>Properties of the metric computations\<close>

subsection \<open>Momentum\<close>

lemma py_index_neg:
  "0 < k \<Longrightarrow> k \<le> length xs \<Longrightarrow> py_index xs (- int k) = Inr (xs ! (length xs - k))"
  by (simp add: py_index_def nat_diff_distrib' of_nat_diff)

lemma py_index_last:
  "xs \<noteq> [] \<Longrightarrow> py_index xs (- 1) = Inr (last xs)"
  using py_index_neg [of 1 xs] by (cases xs rule: rev_cases) (simp_all add: last_conv_nth)

lemma py_index_base:
  "22 \<le> length xs \<Longrightarrow> py_index xs (- 22) = Inr (xs ! (length xs - 22))"
  using py_index_neg [of 22 xs] by simp




subsection \<open>Volatility\<close>

lemma foldl_fl_add_Fin: "foldl fl_add (Fin a) (map Fin xs) = Fin (a + sum_list xs)"
  by (induction xs arbitrary: a) (simp_all add: add.assoc)

lemma py_sum_Fin: "py_sum (map Fin xs) = Fin (sum_list xs)"
  by (simp add: py_sum_def foldl_fl_add_Fin)








lemma compute_volatility_finite:
  assumes len: "21 \<le> length rs" and fin: "py_last_n 21 rs = map Fin xs"
  shows "compute_volatility rs = Inr (Fin (population_sd xs * sqrt 252))"
proof -
  have n: "length xs = 21"
    using len arg_cong [OF fin, of length] by (simp add: py_last_n_def)
  have sq: "map (\<lambda>r. fl_square (fl_sub r (Fin m))) (map Fin xs) = map Fin (map (\<lambda>x. (x - m)\<^sup>2) xs)" for m
    by (simp add: fl_square_def fl_sub_def power2_eq_square)
  have nonneg: "0 \<le> (\<Sum>x\<leftarrow>xs. (x - m)\<^sup>2) / 21" for m
    by (intro divide_nonneg_pos sum_list_nonneg) auto
  show ?thesis
    using len nonneg [of "sum_list xs / 21"]
    by (simp add: compute_volatility_def LOOKBACK_DAYS_def fin py_sum_Fin truediv_def sq
          ANNUALIZATION_FACTOR_def population_sd_def population_variance_def mean_def n
          del: map_map)
qed

lemma population_sd_replicate: "population_sd (replicate n r) = 0"
proof -
  have "(\<Sum>x\<leftarrow>replicate n r. (x - m)\<^sup>2) = real n * (r - m)\<^sup>2" for m
    by (induction n) (simp_all add: algebra_simps)
  then show ?thesis
    by (simp add: population_sd_def population_variance_def mean_def sum_list_replicate)
qed















section \<open>Properties of the normalization\<close>

lemma usable_iff: "usable v \<longleftrightarrow> (\<exists>x. v = Some (Fin x))"
  by (cases v rule: usable.cases) (auto elim: isfinite.elims)

lemma valid_entries_set:
  "(t, x) \<in> set (valid_entries metric) \<longleftrightarrow> (t, Some (Fin x)) \<in> set metric"
  by (induction metric rule: valid_entries.induct) auto

lemma keys_valid_entries:
  "t \<in> keys (valid_entries metric) \<longleftrightarrow> (\<exists>x. (t, Some (Fin x)) \<in> set metric)"
proof
  assume "t \<in> keys (valid_entries metric)"
  then obtain x where "(t, x) \<in> set (valid_entries metric)"
    by (auto simp: keys_def)
  then show "\<exists>x. (t, Some (Fin x)) \<in> set metric"
    by (auto simp: valid_entries_set)
next
  assume "\<exists>x. (t, Some (Fin x)) \<in> set metric"
  then obtain x where "(t, x) \<in> set (valid_entries metric)"
    by (auto simp: valid_entries_set)
  then show "t \<in> keys (valid_entries metric)"
    by (force simp: keys_def)
qed

lemma valid_entries_empty:
  "valid_entries metric = [] \<longleftrightarrow> (\<forall>(t, v) \<in> set metric. \<not> usable v)"
  by (induction metric rule: valid_entries.induct) auto

lemma distinct_usable_key:
  assumes "distinct (map fst metric)" and "(t, v) \<in> set metric"
  shows "t \<in> keys (valid_entries metric) \<longleftrightarrow> usable v"
proof
  assume "t \<in> keys (valid_entries metric)"
  then obtain x where "(t, Some (Fin x)) \<in> set metric"
    by (auto simp: keys_valid_entries)
  with assms have "v = Some (Fin x)"
    by (meson eq_key_imp_eq_value)
  then show "usable v" by simp
next
  assume "usable v"
  with assms(2) show "t \<in> keys (valid_entries metric)"
    by (auto simp: keys_valid_entries usable_iff)
qed


lemma fold_min_Min: "fold min vs (v::real) = Min (set (v # vs))"
  by (simp only: Min.set_eq_fold)

lemma fold_max_Max: "fold max vs (v::real) = Max (set (v # vs))"
  by (simp only: Max.set_eq_fold)


lemma normalize_keys: "map fst (normalize metric hib) = map fst metric"
  by (auto simp: normalize_def Let_def split: list.splits option.splits)




lemma normalize_no_usable:
  assumes "\<forall>(t, v) \<in> set metric. \<not> usable v"
  shows "normalize metric hib = map (\<lambda>(tick, value). (tick, 0)) metric"
  using assms by (simp add: normalize_def valid_entries_empty [symmetric])

lemma normalize_all_close:
  assumes d: "distinct (map fst metric)"
    and c: "\<forall>(t1, v1) \<in> set (valid_entries metric). \<forall>(t2, v2) \<in> set (valid_entries metric). isclose v1 v2"
  shows "normalize metric hib = degenerate_scores metric"
proof (cases "map snd (valid_entries metric)")
  case Nil
  then have "\<forall>(t, v) \<in> set metric. \<not> usable v"
    by (simp add: valid_entries_empty)
  then show ?thesis
    using Nil by (auto simp: normalize_def degenerate_scores_def)
next
  case (Cons v vs)
  let ?lo = "fold min vs v" and ?hi = "fold max vs v"
  have "?lo \<in> set (v # vs)" unfolding fold_min_Min by (rule Min_in) simp_all
  then have lo: "?lo \<in> snd ` set (valid_entries metric)" using Cons by (metis list.set_map)
  have "?hi \<in> set (v # vs)" unfolding fold_max_Max by (rule Max_in) simp_all
  then have hi: "?hi \<in> snd ` set (valid_entries metric)" using Cons by (metis list.set_map)
  from lo hi c have "isclose ?lo ?hi" by fastforce
  then show ?thesis
    using Cons distinct_usable_key [OF d]
    by (auto simp: normalize_def Let_def degenerate_scores_def)
qed



text \<open>
  Claim C4. When no value of the metric vector is usable, every score is 0. When the usable
  values are pairwise close in the sense of \<open>isclose\<close>, every ticker with a usable value
  gets exactly 1 and every other ticker gets 0. Both hold for both orientations.
\<close>

theorem normalize_degenerate:
  "((\<forall>(t, v) \<in> set metric. \<not> usable v) \<longrightarrow>
      normalize metric hib = map (\<lambda>(t, v). (t, 0)) metric)
   \<and> (distinct (map fst metric) \<and>
        (\<forall>x \<in> snd ` set (valid_entries metric). \<forall>y \<in> snd ` set (valid_entries metric). isclose x y) \<longrightarrow>
      normalize metric hib = degenerate_scores metric)"
proof (intro conjI impI)
  assume "\<forall>(t, v) \<in> set metric. \<not> usable v"
  then show "normalize metric hib = map (\<lambda>(t, v). (t, 0)) metric"
    by (rule normalize_no_usable)
next
  assume h: "distinct (map fst metric) \<and>
    (\<forall>x \<in> snd ` set (valid_entries metric). \<forall>y \<in> snd ` set (valid_entries metric). isclose x y)"
  then show "normalize metric hib = degenerate_scores metric"
    by (intro normalize_all_close) (simp, fastforce)
qed

theorem normalize_degenerate_witness:
  "normalize [(''AAA'', None), (''BBB'', Some NaN), (''CCC'', Some NInf)] False =
     [(''AAA'', 0), (''BBB'', 0), (''CCC'', 0)]
   \<and> isclose 1000000000 1000000001
   \<and> normalize [(''AAA'', Some (Fin 1000000000)), (''BBB'', None),
                 (''CCC'', Some (Fin 1000000001)), (''DDD'', Some PInf)] True =
     [(''AAA'', 1), (''BBB'', 0), (''CCC'', 1), (''DDD'', 0)]
   \<and> normalize [(''AAA'', Some (Fin 1000000000)), (''BBB'', None),
                 (''CCC'', Some (Fin 1000000001)), (''DDD'', Some PInf)] False =
     [(''AAA'', 1), (''BBB'', 0), (''CCC'', 1), (''DDD'', 0)]"
  using normalize_degenerate [of "[(''AAA'', None), (''BBB'', Some NaN), (''CCC'', Some NInf)]" False]
    normalize_degenerate [of "[(''AAA'', Some (Fin 1000000000)), (''BBB'', None),
                 (''CCC'', Some (Fin 1000000001)), (''DDD'', Some PInf)]" True]
    normalize_degenerate [of "[(''AAA'', Some (Fin 1000000000)), (''BBB'', None),
                 (''CCC'', Some (Fin 1000000001)), (''DDD'', Some PInf)]" False]
  by (simp add: degenerate_scores_def isclose_def rel_tol_def abs_tol_def)

section \<open>Properties of the extraction loop\<close>

lemma map_of_dict_set: "map_of (dict_set d k v) = (map_of d)(k \<mapsto> v)"
  by (induction d k v rule: dict_set.induct) (auto simp: fun_eq_iff)

lemma keys_dict_set: "keys (dict_set d k v) = insert k (keys d)"
  by (induction d k v rule: dict_set.induct) (auto simp: keys_def)

lemma map_fst_dict_set:
  "map fst (dict_set d k v) = (if k \<in> keys d then map fst d else map fst d @ [k])"
  by (induction d k v rule: dict_set.induct) (auto simp: keys_def)

lemma distinct_dict_set: "distinct (map fst d) \<Longrightarrow> distinct (map fst (dict_set d k v))"
  by (simp add: map_fst_dict_set keys_def)

lemma fetch_all_Inr:
  assumes "fetch_all fetch ts an fl = Inr (an', fl')"
  shows "(\<forall>t \<in> set ts. \<not> unexpected (fetch t))
       \<and> map_of an' = (\<lambda>t. if t \<in> set ts \<and> success (fetch t) \<noteq> None then success (fetch t) else map_of an t)
       \<and> map_of fl' = (\<lambda>t. if t \<in> set ts \<and> soft_reason (fetch t) \<noteq> None then soft_reason (fetch t) else map_of fl t)
       \<and> (distinct (map fst an) \<longrightarrow> distinct (map fst an'))
       \<and> (distinct (map fst fl) \<longrightarrow> distinct (map fst fl'))"
  using assms
proof (induction ts arbitrary: an fl)
  case Nil
  then show ?case by simp
next
  case (Cons tick rest)
  show ?case
  proof (cases "fetch tick")
    case (Inr a)
    with Cons.prems have "fetch_all fetch rest (dict_set an tick a) fl = Inr (an', fl')" by simp
    from Cons.IH [OF this] Inr show ?thesis
      by (auto simp: map_of_dict_set fun_eq_iff distinct_dict_set)
  next
    case (Inl e)
    show ?thesis
    proof (cases e)
      case (AnalysisError msg)
      with Inl Cons.prems have "fetch_all fetch rest an (dict_set fl tick msg) = Inr (an', fl')" by simp
      from Cons.IH [OF this] Inl AnalysisError show ?thesis
        by (auto simp: map_of_dict_set fun_eq_iff distinct_dict_set)
    qed (use Inl Cons.prems in simp_all)
  qed
qed

lemma fetch_all_Inl:
  assumes "fetch_all fetch ts an fl = Inl e"
  shows "\<exists>pre t post exc. ts = pre @ t # post \<and> (\<forall>u \<in> set pre. \<not> unexpected (fetch u))
           \<and> fetch t = Inl exc \<and> unexpected (fetch t)
           \<and> e = AnalysisError (''Failed to analyze '' @ t @ '': '' @ exn_str exc)"
  using assms
proof (induction ts arbitrary: an fl)
  case Nil
  then show ?case by simp
next
  case (Cons tick rest)
  show ?case
  proof (cases "unexpected (fetch tick)")
    case True
    then obtain exc where exc: "fetch tick = Inl exc"
      by (cases "fetch tick") auto
    with True Cons.prems have "e = AnalysisError (''Failed to analyze '' @ tick @ '': '' @ exn_str exc)"
      by (cases exc) auto
    with True exc show ?thesis
      by (intro exI [of _ "[]"] exI [of _ tick] exI [of _ rest] exI [of _ exc]) simp
  next
    case False
    with Cons.prems obtain an1 fl1 where "fetch_all fetch rest an1 fl1 = Inl e"
      by (cases "fetch tick" rule: unexpected.cases) auto
    from Cons.IH [OF this] obtain pre t post exc where
      "rest = pre @ t # post" "\<forall>u \<in> set pre. \<not> unexpected (fetch u)"
      "fetch t = Inl exc" "unexpected (fetch t)"
      "e = AnalysisError (''Failed to analyze '' @ t @ '': '' @ exn_str exc)"
      by blast
    with False show ?thesis
      by (intro exI [of _ "tick # pre"] exI [of _ t] exI [of _ post] exI [of _ exc]) simp
  qed
qed

lemma fetch_all_unexpected:
  assumes "ts = pre @ t # post" "\<forall>u \<in> set pre. \<not> unexpected (fetch u)"
    "fetch t = Inl exc" "unexpected (fetch t)"
  shows "fetch_all fetch ts an fl = Inl (AnalysisError (''Failed to analyze '' @ t @ '': '' @ exn_str exc))"
  using assms
proof (induction pre arbitrary: ts an fl)
  case Nil
  then show ?case by (cases exc) auto
next
  case (Cons u pre)
  then have "\<not> unexpected (fetch u)" by simp
  then show ?case using Cons
    by (cases "fetch u" rule: unexpected.cases) auto
qed

lemma fetch_all_total:
  assumes "\<forall>t \<in> set ts. \<not> unexpected (fetch t)"
  shows "\<exists>an' fl'. fetch_all fetch ts an fl = Inr (an', fl')"
  using assms
proof (induction ts arbitrary: an fl)
  case Nil
  then show ?case by simp
next
  case (Cons tick rest)
  then have "\<not> unexpected (fetch tick)" by simp
  then show ?case using Cons
    by (cases "fetch tick" rule: unexpected.cases) auto
qed

section \<open>Properties of the scoring loop\<close>

lemma getitem_in_keys: "k \<in> keys d \<Longrightarrow> \<exists>v. getitem d k = Inr v"
  by (cases "map_of d k") (auto simp: getitem_def keys_def map_of_eq_None_iff)

lemma keys_normalize: "keys (normalize metric hib) = keys metric"
  using normalize_keys [of metric hib] by (metis keys_def list.set_map)

lemma keys_vector_of: "keys (vector_of field analyses) = keys analyses"
  by (force simp: keys_def vector_of_def)

lemma getitem_normalize_vector:
  "t \<in> keys analyses \<Longrightarrow> \<exists>sc. getitem (normalize (vector_of field analyses) hib) t = Inr sc"
  by (simp add: getitem_in_keys keys_normalize keys_vector_of)

lemma score_ticker_ok:
  assumes "map_of analyses t = Some a"
    and "getitem pe_s t = Inr pe" and "getitem pb_s t = Inr pb" and "getitem fcf_s t = Inr fcf"
    and "getitem mom_s t = Inr mom" and "getitem risk_s t = Inr risk"
  shows "score_ticker analyses pe_s pb_s fcf_s mom_s risk_s vw mw rw t an =
     Inr \<lparr> RankedStock.ticker = t,
           composite_score =
             vw * present_mean [(pe_ratio a, pe), (pb_ratio a, pb), (free_cash_flow_yield a, fcf)]
             + mw * mom + rw * risk,
           value_score =
             present_mean [(pe_ratio a, pe), (pb_ratio a, pb), (free_cash_flow_yield a, fcf)],
           momentum_score = mom,
           risk_score = risk,
           analysis = an \<rparr>"
  using assms
  by (simp add: score_ticker_def getitem_def value_component_def present_mean_def Let_def)

lemma score_all_total:
  "\<forall>(t, an) \<in> set items. \<exists>r. score t an = Inr r \<Longrightarrow> \<exists>rs. score_all score items = Inr rs"
  by (induction items) (auto split: sum.splits)

lemma score_all_Inr:
  "score_all score items = Inr rs \<Longrightarrow> list_all2 (\<lambda>(t, an) r. score t an = Inr r) items rs"
  by (induction items arbitrary: rs) (auto split: sum.splits)

lemma fetch_all_distinct:
  assumes "fetch_all fetch ts [] [] = Inr (analyses, fails)"
  shows "distinct (map fst analyses)" and "distinct (map fst fails)"
  using fetch_all_Inr [OF assms] by simp_all

text \<open>The scoring loop never raises on the dictionary the first loop built.\<close>

lemma scoring_ok:
  assumes d: "distinct (map fst analyses)" and m: "(t, an) \<in> set analyses"
  shows "\<exists>r. score_ticker analyses
            (normalize (map (\<lambda>(tick, a). (tick, pe_ratio a)) analyses) False)
            (normalize (map (\<lambda>(tick, a). (tick, pb_ratio a)) analyses) False)
            (normalize (map (\<lambda>(tick, a). (tick, free_cash_flow_yield a)) analyses) True)
            (normalize (map (\<lambda>(tick, a). (tick, momentum_21d a)) analyses) True)
            (normalize (map (\<lambda>(tick, a). (tick, volatility_21d a)) analyses) False)
            vw mw rw t an = Inr r
          \<and> RankedStock.ticker r = t \<and> analysis r = an \<and> scored_by analyses vw mw rw r"
proof -
  have k: "t \<in> keys analyses" using m by (force simp: keys_def)
  have a: "map_of analyses t = Some an" using d m by simp
  obtain pe where pe: "getitem (normalize (vector_of pe_ratio analyses) False) t = Inr pe"
    using getitem_normalize_vector [OF k] by blast
  obtain pb where pb: "getitem (normalize (vector_of pb_ratio analyses) False) t = Inr pb"
    using getitem_normalize_vector [OF k] by blast
  obtain fcf where fcf: "getitem (normalize (vector_of free_cash_flow_yield analyses) True) t = Inr fcf"
    using getitem_normalize_vector [OF k] by blast
  obtain mom where mom: "getitem (normalize (vector_of momentum_21d analyses) True) t = Inr mom"
    using getitem_normalize_vector [OF k] by blast
  obtain risk where risk: "getitem (normalize (vector_of volatility_21d analyses) False) t = Inr risk"
    using getitem_normalize_vector [OF k] by blast
  note sc = score_ticker_ok [OF a pe pb fcf mom risk, of vw mw rw an]
  show ?thesis
    unfolding vector_of_def [symmetric]
    by (rule exI, intro conjI, rule sc) (simp_all add: scored_by_def a pe pb fcf mom risk)
qed

lemma analyze_universe_Inr:
  assumes "analyze_universe yf tickers period vw mw rw top_n = Inr s"
  shows "\<exists>analyses fails scored.
      fetch_all (\<lambda>tick. fetch_analysis yf tick period) tickers [] [] = Inr (analyses, fails)
    \<and> analyses \<noteq> []
    \<and> list_all2 (\<lambda>(t, an) r. RankedStock.ticker r = t \<and> analysis r = an
                      \<and> scored_by analyses vw mw rw r) analyses scored
    \<and> s = \<lparr> ranked = truncate top_n (sort_reverse composite_score scored), failures = fails \<rparr>"
proof -
  from assms obtain analyses fails where
    f: "fetch_all (\<lambda>tick. fetch_analysis yf tick period) tickers [] [] = Inr (analyses, fails)"
    by (auto simp: analyze_universe_def split: sum.splits)
  from assms f have ne: "analyses \<noteq> []"
    by (auto simp: analyze_universe_def split: if_splits)
  let ?score = "score_ticker analyses
            (normalize (map (\<lambda>(tick, a). (tick, pe_ratio a)) analyses) False)
            (normalize (map (\<lambda>(tick, a). (tick, pb_ratio a)) analyses) False)
            (normalize (map (\<lambda>(tick, a). (tick, free_cash_flow_yield a)) analyses) True)
            (normalize (map (\<lambda>(tick, a). (tick, momentum_21d a)) analyses) True)
            (normalize (map (\<lambda>(tick, a). (tick, volatility_21d a)) analyses) False)
            vw mw rw"
  from assms f ne obtain scored where
    sc: "score_all ?score analyses = Inr scored"
    and s: "s = \<lparr> ranked = truncate top_n (sort_reverse composite_score scored), failures = fails \<rparr>"
    by (auto simp: analyze_universe_def Let_def split: sum.splits)
  have d: "distinct (map fst analyses)" by (rule fetch_all_distinct [OF f])
  have "list_all2 (\<lambda>(t, an) r. ?score t an = Inr r) analyses scored"
    by (rule score_all_Inr [OF sc])
  then have "list_all2 (\<lambda>(t, an) r. RankedStock.ticker r = t \<and> analysis r = an
                      \<and> scored_by analyses vw mw rw r) analyses scored"
  proof (rule list.rel_mono_strong)
    fix x r assume "x \<in> set analyses" and "r \<in> set scored" and h: "(case x of (t, an) \<Rightarrow> \<lambda>r. ?score t an = Inr r) r"
    then obtain t an where x: "x = (t, an)" and m: "(t, an) \<in> set analyses" by (cases x) auto
    from scoring_ok [OF d m, of vw mw rw] h x
    show "(case x of (t, an) \<Rightarrow> \<lambda>r. RankedStock.ticker r = t \<and> analysis r = an
                      \<and> scored_by analyses vw mw rw r) r"
      by auto
  qed
  with f ne s show ?thesis by blast
qed

lemma analyze_universe_succeeds:
  assumes f: "fetch_all (\<lambda>tick. fetch_analysis yf tick period) tickers [] [] = Inr (analyses, fails)"
    and ne: "analyses \<noteq> []"
  shows "\<exists>s. analyze_universe yf tickers period vw mw rw top_n = Inr s"
proof -
  have d: "distinct (map fst analyses)" by (rule fetch_all_distinct [OF f])
  let ?score = "score_ticker analyses
            (normalize (map (\<lambda>(tick, a). (tick, pe_ratio a)) analyses) False)
            (normalize (map (\<lambda>(tick, a). (tick, pb_ratio a)) analyses) False)
            (normalize (map (\<lambda>(tick, a). (tick, free_cash_flow_yield a)) analyses) True)
            (normalize (map (\<lambda>(tick, a). (tick, momentum_21d a)) analyses) True)
            (normalize (map (\<lambda>(tick, a). (tick, volatility_21d a)) analyses) False)
            vw mw rw"
  have "\<forall>(t, an) \<in> set analyses. \<exists>r. ?score t an = Inr r"
    using scoring_ok [OF d, of _ _ vw mw rw] by blast
  then obtain scored where "score_all ?score analyses = Inr scored"
    using score_all_total by blast
  with f ne show ?thesis
    by (simp add: analyze_universe_def Let_def)
qed

lemma analyze_universe_no_survivor:
  assumes f: "fetch_all (\<lambda>tick. fetch_analysis yf tick period) tickers [] [] = Inr ([], fails)"
  shows "analyze_universe yf tickers period vw mw rw top_n = Inl (AnalysisError (no_tickers_message fails))"
  using f by (simp add: analyze_universe_def)

lemma analyze_universe_fetch_error:
  assumes f: "fetch_all (\<lambda>tick. fetch_analysis yf tick period) tickers [] [] = Inl e"
  shows "analyze_universe yf tickers period vw mw rw top_n = Inl e"
  using f by (simp add: analyze_universe_def)

section \<open>Properties of the ranking\<close>

lemma fetch_all_order:
  assumes "fetch_all fetch ts an fl = Inr (an', fl')"
  shows "map fst an' = map fst an @
           filter (\<lambda>t. t \<notin> keys an) (first_occurrences (filter (\<lambda>t. success (fetch t) \<noteq> None) ts))
       \<and> map fst fl' = map fst fl @
           filter (\<lambda>t. t \<notin> keys fl) (first_occurrences (filter (\<lambda>t. soft_reason (fetch t) \<noteq> None) ts))"
  using assms
proof (induction ts arbitrary: an fl)
  case Nil
  then show ?case by simp
next
  case (Cons tick rest)
  have ff: "filter P (filter (\<lambda>y. y \<noteq> tick) xs) = filter (\<lambda>t. P t \<and> t \<noteq> tick) xs" for P and xs :: "string list"
    by (induction xs) auto
  show ?case
  proof (cases "fetch tick")
    case (Inr a)
    with Cons.prems have "fetch_all fetch rest (dict_set an tick a) fl = Inr (an', fl')" by simp
    from Cons.IH [OF this] Inr show ?thesis
      by (auto simp: map_fst_dict_set keys_dict_set ff intro: filter_cong)
  next
    case (Inl e)
    show ?thesis
    proof (cases e)
      case (AnalysisError msg)
      with Inl Cons.prems have "fetch_all fetch rest an (dict_set fl tick msg) = Inr (an', fl')" by simp
      from Cons.IH [OF this] Inl AnalysisError show ?thesis
        by (auto simp: map_fst_dict_set keys_dict_set ff intro: filter_cong)
    qed (use Inl Cons.prems in simp_all)
  qed
qed

lemma set_sort_reverse: "set (sort_reverse f xs) = set xs"
  by (simp add: sort_reverse_def)

lemma length_sort_reverse: "length (sort_reverse f xs) = length xs"
  by (simp add: sort_reverse_def)

lemma distinct_map_sort_reverse: "distinct (map g (sort_reverse f xs)) = distinct (map g xs)"
proof -
  have "mset (map g (sort_reverse f xs)) = mset (map g xs)"
    by (simp add: sort_reverse_def)
  then show ?thesis by (rule mset_eq_imp_distinct_iff)
qed


lemma truncate_take: "truncate top_n xs = take (cut top_n (length xs)) xs"
proof (cases top_n)
  case None
  then show ?thesis by (simp add: truncate_def cut_def)
next
  case (Some k)
  have "nat (int (length xs) + k) = length xs - nat (- k)" if "k < 0"
    using that by linarith
  moreover have "take (min n (length xs)) xs = take n xs" for n
    by (simp add: min_def)
  ultimately show ?thesis
    using Some by (simp add: truncate_def cut_def py_slice_to_def)
qed

section \<open>Properties of a run\<close>

lemma soft_reason_iff: "soft_reason r = Some m \<longleftrightarrow> r = Inl (AnalysisError m)"
  by (cases r rule: soft_reason.cases) auto

lemma outcome_cases: "\<not> unexpected r \<Longrightarrow> success r \<noteq> None \<or> soft_reason r \<noteq> None"
  by (cases r rule: unexpected.cases) auto

lemma keys_map_of: "keys d = {k. map_of d k \<noteq> None}"
  by (auto simp: keys_def map_of_eq_None_iff)

lemma run_facts:
  assumes "analyze_universe yf tickers period vw mw rw top_n = Inr s"
  shows "\<exists>analyses scored.
      fetch_all (\<lambda>tick. fetch_analysis yf tick period) tickers [] [] = Inr (analyses, failures s)
    \<and> analyses \<noteq> []
    \<and> distinct (map fst analyses)
    \<and> distinct (map fst (failures s))
    \<and> keys analyses = {t \<in> set tickers. success (fetch_analysis yf t period) \<noteq> None}
    \<and> keys (failures s) = {t \<in> set tickers. soft_reason (fetch_analysis yf t period) \<noteq> None}
    \<and> (\<forall>t \<in> set tickers. \<not> unexpected (fetch_analysis yf t period))
    \<and> map RankedStock.ticker scored = map fst analyses
    \<and> map analysis scored = map snd analyses
    \<and> (\<forall>r \<in> set scored. scored_by analyses vw mw rw r)
    \<and> ranked s = take (cut top_n (length scored)) (sort_reverse composite_score scored)"
proof -
  let ?F = "\<lambda>tick. fetch_analysis yf tick period"
  from analyze_universe_Inr [OF assms] obtain analyses fails scored where
    f: "fetch_all ?F tickers [] [] = Inr (analyses, fails)"
    and ne: "analyses \<noteq> []"
    and l: "list_all2 (\<lambda>(t, an) r. RankedStock.ticker r = t \<and> analysis r = an
                      \<and> scored_by analyses vw mw rw r) analyses scored"
    and s: "s = \<lparr> ranked = truncate top_n (sort_reverse composite_score scored), failures = fails \<rparr>"
    by blast
  note fa = fetch_all_Inr [OF f]
  have k1: "keys analyses = {t \<in> set tickers. success (?F t) \<noteq> None}"
    using fa by (auto simp: keys_map_of)
  have k2: "keys fails = {t \<in> set tickers. soft_reason (?F t) \<noteq> None}"
    using fa by (auto simp: keys_map_of)
  have t1: "map RankedStock.ticker scored = map fst analyses"
    using l by (induction analyses scored rule: list_all2_induct) auto
  have t2: "map analysis scored = map snd analyses"
    using l by (induction analyses scored rule: list_all2_induct) auto
  have t3: "\<forall>r \<in> set scored. scored_by analyses vw mw rw r"
  proof -
    have "list_all2 (\<lambda>x r. scored_by analyses vw mw rw r) analyses scored"
      using l by (rule list_all2_mono) auto
    then show ?thesis
      by (auto simp: list_all2_conv_all_nth in_set_conv_nth)
  qed
  have r: "ranked s = take (cut top_n (length scored)) (sort_reverse composite_score scored)"
    by (simp add: s truncate_take length_sort_reverse)
  from f ne fa k1 k2 t1 t2 t3 r s show ?thesis
    by (intro exI [of _ analyses] exI [of _ scored]) simp
qed

lemma success_eq: "success r = Some a \<longleftrightarrow> r = Inr a"
  by (cases r) auto

lemma failures_reasons:
  assumes f: "fetch_all fetch ts [] [] = Inr (analyses, fails)" and m: "(u, msg) \<in> set fails"
  shows "fetch u = Inl (AnalysisError msg)"
proof -
  note fa = fetch_all_Inr [OF f]
  from fa have "distinct (map fst fails)" by simp
  with m have "map_of fails u = Some msg" by simp
  with fa have "soft_reason (fetch u) = Some msg"
    by (auto split: if_splits)
  then show ?thesis by (simp add: soft_reason_iff)
qed


lemma survivors_card:
  assumes "distinct (map fst analyses)" and "map g scored = map fst analyses"
  shows "length scored = card (keys analyses)"
proof -
  have "length scored = length (map fst analyses)"
    using assms(2) by (metis length_map)
  also have "\<dots> = card (set (map fst analyses))"
    using distinct_card [OF assms(1)] by simp
  finally show ?thesis by (simp add: keys_def)
qed

lemma failures_order:
  assumes f: "fetch_all fetch ts [] [] = Inr (analyses, fails)"
  shows "map fst fails =
     first_occurrences (filter (\<lambda>u. \<exists>m. fetch u = Inl (AnalysisError m)) ts)"
proof -
  have same: "(\<lambda>t. soft_reason (fetch t) \<noteq> None) = (\<lambda>u. \<exists>m. fetch u = Inl (AnalysisError m))"
    by (auto simp: fun_eq_iff soft_reason_iff)
  have "map fst fails =
      first_occurrences (filter (\<lambda>t. soft_reason (fetch t) \<noteq> None) ts)"
    using conjunct2 [OF fetch_all_order [OF f]] by (simp add: keys_def)
  then show ?thesis
    by (simp only: same)
qed

lemma present_mean_none: "present_mean [(None, a), (None, b), (None, c)] = 0"
  by (simp add: present_mean_def)

lemma fetch_analysis_sets_both:
  assumes "fetch_analysis yf t period = Inr a"
  shows "(\<exists>m v. momentum_21d a = Some m \<and> volatility_21d a = Some v) \<and> StockAnalysis.ticker a = t"
  using assms
  by (auto simp: fetch_analysis_def Let_def split: sum.splits if_splits)

lemma survivors_fetched:
  assumes f: "fetch_all fetch ts [] [] = Inr (analyses, fails)" and m: "(t, a) \<in> set analyses"
  shows "fetch t = Inr a"
proof -
  note fa = fetch_all_Inr [OF f]
  from fa have "distinct (map fst analyses)" by simp
  with m have "map_of analyses t = Some a" by simp
  with fa have "success (fetch t) = Some a"
    by (auto split: if_splits)
  then show ?thesis by (simp add: success_eq)
qed

section \<open>The run on the sample market\<close>

lemma compute_momentum_sample:
  "compute_momentum (replicate 21 (Fin 100) @ [Fin c]) = Inr (Fin (c / 100 - 1))"
proof -
  let ?cs = "replicate 21 (Fin 100) @ [Fin c]"
  have ne: "?cs \<noteq> []" by simp
  have len: "22 \<le> length ?cs" by simp
  have b: "?cs ! 0 = Fin 100" by (simp add: nth_append)
  show ?thesis
    unfolding compute_momentum_def
    using b by (simp add: py_index_last [OF ne] py_index_base [OF len] truediv_def fl_sub_def
        LOOKBACK_DAYS_def)
qed

lemma compute_volatility_quiet: "compute_volatility quiet_returns = Inr (Fin 0)"
proof -
  have "py_last_n 21 quiet_returns = map Fin (replicate 21 0)"
    by (simp add: quiet_returns_def py_last_n_def)
  then have "compute_volatility quiet_returns = Inr (Fin (population_sd (replicate 21 0) * sqrt 252))"
    by (intro compute_volatility_finite) (simp_all add: quiet_returns_def)
  then show ?thesis by (simp add: population_sd_replicate)
qed

lemma sqrt_sample: "sqrt (12 / 10000 / 21) * sqrt 252 = 3 / 25"
proof -
  have "sqrt (12 / 10000 / 21) * sqrt 252 = sqrt ((3 / 25)\<^sup>2)"
    by (simp add: real_sqrt_mult [symmetric] power2_eq_square)
  then show ?thesis by simp
qed

lemma compute_volatility_lively: "compute_volatility lively_returns = Inr (Fin (3 / 25))"
proof -
  let ?xs = "[2 / 100, - (2 / 100), 1 / 100, - (1 / 100), 1 / 100, - (1 / 100)] @ replicate 15 (0::real)"
  have "py_last_n 21 lively_returns = map Fin ?xs"
    by (simp add: lively_returns_def py_last_n_def)
  then have "compute_volatility lively_returns = Inr (Fin (population_sd ?xs * sqrt 252))"
    by (intro compute_volatility_finite) (simp_all add: lively_returns_def)
  moreover have pv: "population_variance ?xs = 12 / 10000 / 21"
    by (simp add: population_variance_def mean_def sum_list_replicate power2_eq_square)
  have "population_sd ?xs * sqrt 252 = 3 / 25"
    unfolding population_sd_def pv by (rule sqrt_sample)
  ultimately show ?thesis
    by (simp only:)
qed

lemma fetch_AAA: "fetch_analysis sample_market ''AAA'' period = Inr sample_AAA"
  by (simp add: Let_def fetch_analysis_def sample_market_def compute_momentum_sample
      compute_volatility_quiet py_or_def no_info_def free_cash_flow_of_def frame_empty_def
      keys_def first_of_row_def getitem_def py_index_def compute_fcf_yield_def truediv_def
      sample_AAA_def)

lemma fetch_BBB: "fetch_analysis sample_market ''BBB'' period = Inr sample_BBB"
  by (simp add: Let_def fetch_analysis_def sample_market_def compute_momentum_sample
      compute_volatility_lively py_or_def no_info_def free_cash_flow_of_def
      compute_fcf_yield_def sample_BBB_def)

lemma fetch_CCC:
  "fetch_analysis sample_market ''CCC'' period = Inl (AnalysisError ''No price history available'')"
  by (simp add: fetch_analysis_def sample_market_def)

lemma fetch_DDD:
  "fetch_analysis sample_market ''DDD'' period = Inl (ExternalError ''connection reset'')"
  by (simp add: fetch_analysis_def sample_market_def)

lemma fetch_EEE:
  "fetch_analysis sample_market ''EEE'' period =
     Inl (AnalysisError ''Not enough price history to compute momentum'')"
  by (simp add: fetch_analysis_def sample_market_def compute_momentum_def LOOKBACK_DAYS_def)

lemma fetch_FFF: "fetch_analysis sample_market ''FFF'' period = Inr sample_FFF"
  by (simp add: Let_def fetch_analysis_def sample_market_def compute_momentum_sample
      compute_volatility_quiet py_or_def no_info_def free_cash_flow_of_def frame_empty_def
      keys_def first_of_row_def getitem_def py_index_def compute_fcf_yield_def truediv_def
      sample_FFF_def)

lemma sample_fetch_all:
  "fetch_all (\<lambda>tick. fetch_analysis sample_market tick period) sample_tickers [] [] =
     Inr ([(''BBB'', sample_BBB), (''AAA'', sample_AAA), (''FFF'', sample_FFF)],
          [(''CCC'', ''No price history available'')])"
  by (simp add: sample_tickers_def fetch_AAA fetch_BBB fetch_CCC fetch_FFF)

lemma sample_pe:
  "normalize [(''BBB'', Some (Fin 30)), (''AAA'', Some (Fin 10)), (''FFF'', Some (Fin 20))] False =
     [(''BBB'', 0), (''AAA'', 1), (''FFF'', 1 / 2)]"
  by (simp add: normalize_def isclose_def rel_tol_def abs_tol_def)

lemma sample_pb:
  "normalize [(''BBB'', None), (''AAA'', Some (Fin 2)), (''FFF'', None)] False =
     [(''BBB'', 0), (''AAA'', 1), (''FFF'', 0)]"
  by (simp add: normalize_def isclose_def keys_def)

lemma sample_fcf:
  "normalize [(''BBB'', None), (''AAA'', Some (Fin (1 / 20))), (''FFF'', None)] True =
     [(''BBB'', 0), (''AAA'', 1), (''FFF'', 0)]"
  by (simp add: normalize_def isclose_def keys_def)

lemma sample_momentum:
  "normalize [(''BBB'', Some (Fin (1 / 5))), (''AAA'', Some (Fin (1 / 10))),
              (''FFF'', Some (Fin (3 / 20)))] True =
     [(''BBB'', 1), (''AAA'', 0), (''FFF'', 1 / 2)]"
  by (simp add: normalize_def isclose_def rel_tol_def abs_tol_def)

lemma sample_risk:
  "normalize [(''BBB'', Some (Fin (3 / 25))), (''AAA'', Some (Fin 0)), (''FFF'', Some (Fin 0))] False =
     [(''BBB'', 0), (''AAA'', 1), (''FFF'', 1)]"
  by (simp add: normalize_def isclose_def rel_tol_def abs_tol_def)

lemma sample_scored:
  "score_all
     (score_ticker [(''BBB'', sample_BBB), (''AAA'', sample_AAA), (''FFF'', sample_FFF)]
        [(''BBB'', 0), (''AAA'', 1), (''FFF'', 1 / 2)]
        [(''BBB'', 0), (''AAA'', 1), (''FFF'', 0)]
        [(''BBB'', 0), (''AAA'', 1), (''FFF'', 0)]
        [(''BBB'', 1), (''AAA'', 0), (''FFF'', 1 / 2)]
        [(''BBB'', 0), (''AAA'', 1), (''FFF'', 1)]
        (1 / 2) (3 / 10) (1 / 5))
     [(''BBB'', sample_BBB), (''AAA'', sample_AAA), (''FFF'', sample_FFF)] =
   Inr [sample_ranked_BBB, sample_ranked_AAA, sample_ranked_FFF]"
  by (simp add: Let_def score_ticker_def getitem_def value_component_def sample_AAA_def sample_BBB_def
      sample_FFF_def sample_ranked_AAA_def sample_ranked_BBB_def sample_ranked_FFF_def)

lemma sample_sorted:
  "sort_reverse composite_score [sample_ranked_BBB, sample_ranked_AAA, sample_ranked_FFF] =
     [sample_ranked_AAA, sample_ranked_FFF, sample_ranked_BBB]"
  by (simp add: sort_reverse_def sample_ranked_AAA_def sample_ranked_BBB_def sample_ranked_FFF_def)

lemma sample_fields:
  "pe_ratio sample_BBB = Some (Fin 30)" "pe_ratio sample_AAA = Some (Fin 10)"
  "pe_ratio sample_FFF = Some (Fin 20)"
  "pb_ratio sample_BBB = None" "pb_ratio sample_AAA = Some (Fin 2)" "pb_ratio sample_FFF = None"
  "free_cash_flow_yield sample_BBB = None" "free_cash_flow_yield sample_AAA = Some (Fin (1 / 20))"
  "free_cash_flow_yield sample_FFF = None"
  "momentum_21d sample_BBB = Some (Fin (1 / 5))" "momentum_21d sample_AAA = Some (Fin (1 / 10))"
  "momentum_21d sample_FFF = Some (Fin (3 / 20))"
  "volatility_21d sample_BBB = Some (Fin (3 / 25))" "volatility_21d sample_AAA = Some (Fin 0)"
  "volatility_21d sample_FFF = Some (Fin 0)"
  by (simp_all add: sample_AAA_def sample_BBB_def sample_FFF_def)

lemma sample_run:
  "analyze_universe sample_market sample_tickers period (1 / 2) (3 / 10) (1 / 5) top_n =
     Inr \<lparr> ranked = truncate top_n [sample_ranked_AAA, sample_ranked_FFF, sample_ranked_BBB],
           failures = [(''CCC'', ''No price history available'')] \<rparr>"
  unfolding analyze_universe_def sample_fetch_all
  by (simp only: Let_def list.map prod.case sum.case list.distinct if_False sample_fields
      sample_pe sample_pb sample_fcf sample_momentum sample_risk sample_scored sample_sorted)

lemma sample_ranked_tickers:
  "RankedStock.ticker sample_ranked_AAA = ''AAA''" "RankedStock.ticker sample_ranked_BBB = ''BBB''"
  "RankedStock.ticker sample_ranked_FFF = ''FFF''"
  by (simp_all add: sample_ranked_AAA_def sample_ranked_BBB_def sample_ranked_FFF_def)

lemma sample_run_all:
  "analyze_universe sample_market sample_tickers period (1 / 2) (3 / 10) (1 / 5) None =
     Inr \<lparr> ranked = [sample_ranked_AAA, sample_ranked_FFF, sample_ranked_BBB],
           failures = [(''CCC'', ''No price history available'')] \<rparr>"
  by (simp add: sample_run truncate_def)

lemma sample_run_two:
  "analyze_universe sample_market sample_tickers period (1 / 2) (3 / 10) (1 / 5) (Some 2) =
     Inr \<lparr> ranked = [sample_ranked_AAA, sample_ranked_FFF],
           failures = [(''CCC'', ''No price history available'')] \<rparr>"
  by (simp add: sample_run truncate_def py_slice_to_def)


section \<open>The claims about a run\<close>

text \<open>
  Claim C1, as amended. When \<open>analyze_universe\<close> returns, no ticker is both in the ranked
  output and in the failure map, every ticker of either is an input ticker, no ticker is
  listed twice, the failure map holds exactly the input tickers whose extraction raised an
  \<open>AnalysisError\<close>, and the ranked output holds only tickers whose extraction succeeded.
  When \<open>top_n\<close> is \<open>None\<close> or at least the number of surviving tickers, every input
  ticker is in one of the two. A smaller cap removes the lowest-ranked survivors from the
  ranked output, and these are in neither.
\<close>

theorem ranked_and_failures_partition:
  assumes "analyze_universe yf tickers period vw mw rw top_n = Inr s"
  shows "set (map RankedStock.ticker (ranked s)) \<inter> keys (failures s) = {}
       \<and> set (map RankedStock.ticker (ranked s)) \<union> keys (failures s) \<subseteq> set tickers
       \<and> distinct (map RankedStock.ticker (ranked s))
       \<and> distinct (map fst (failures s))
       \<and> keys (failures s) =
           {t \<in> set tickers. \<exists>m. fetch_analysis yf t period = Inl (AnalysisError m)}
       \<and> set (map RankedStock.ticker (ranked s)) \<subseteq>
           {t \<in> set tickers. \<exists>a. fetch_analysis yf t period = Inr a}
       \<and> ((top_n = None \<or>
            (\<exists>k. top_n = Some k \<and>
                 int (card {t \<in> set tickers. \<exists>a. fetch_analysis yf t period = Inr a}) \<le> k)) \<longrightarrow>
           set (map RankedStock.ticker (ranked s)) \<union> keys (failures s) = set tickers)"
proof -
  let ?F = "\<lambda>t. fetch_analysis yf t period"
  let ?S = "{t \<in> set tickers. \<exists>a. ?F t = Inr a}"
  from run_facts [OF assms] obtain analyses :: "(string, StockAnalysis) dict"
    and scored :: "RankedStock list" where
    d1: "distinct (map fst analyses)" and d2: "distinct (map fst (failures s))"
    and k1: "keys analyses = {t \<in> set tickers. success (?F t) \<noteq> None}"
    and k2: "keys (failures s) = {t \<in> set tickers. soft_reason (?F t) \<noteq> None}"
    and nu: "\<forall>t \<in> set tickers. \<not> unexpected (?F t)"
    and t1: "map RankedStock.ticker scored = map fst analyses"
    and r: "ranked s = take (cut top_n (length scored)) (sort_reverse composite_score scored)"
    by blast
  have S: "keys analyses = ?S" by (auto simp: k1 success_eq)
  have K: "keys (failures s) = {t \<in> set tickers. \<exists>m. ?F t = Inl (AnalysisError m)}"
    by (auto simp: k2 soft_reason_iff)
  have all: "set (map RankedStock.ticker (sort_reverse composite_score scored)) = ?S"
  proof -
    have "set (map RankedStock.ticker (sort_reverse composite_score scored)) =
          set (map RankedStock.ticker scored)"
      by (simp add: set_sort_reverse)
    also have "\<dots> = set (map fst analyses)"
      by (simp only: t1)
    also have "\<dots> = keys analyses"
      by (simp add: keys_def)
    finally show ?thesis
      by (simp only: S)
  qed
  have sub: "set (map RankedStock.ticker (ranked s)) \<subseteq> ?S"
    unfolding r all [symmetric] take_map [symmetric] by (rule set_take_subset)
  have dist: "distinct (map RankedStock.ticker (ranked s))"
    unfolding r take_map [symmetric]
    by (rule distinct_take) (simp add: distinct_map_sort_reverse t1 d1)
  have disj: "?S \<inter> keys (failures s) = {}"
    by (auto simp: K)
  have cover: "?S \<union> keys (failures s) = set tickers"
  proof
    show "?S \<union> keys (failures s) \<subseteq> set tickers" by (auto simp: K)
    show "set tickers \<subseteq> ?S \<union> keys (failures s)"
    proof
      fix t assume t: "t \<in> set tickers"
      with nu have "\<not> unexpected (?F t)" by simp
      from outcome_cases [OF this] t show "t \<in> ?S \<union> keys (failures s)"
        by (auto simp: K success_eq soft_reason_iff)
    qed
  qed
  have n: "length scored = card ?S"
    using survivors_card [OF d1 t1] S by simp
  have full: "set (map RankedStock.ticker (ranked s)) = ?S"
    if "top_n = None \<or> (\<exists>k. top_n = Some k \<and> int (card ?S) \<le> k)"
  proof -
    from that n have "cut top_n (length scored) = length scored"
      by (auto simp: cut_def)
    then have "ranked s = sort_reverse composite_score scored"
      by (simp add: r length_sort_reverse)
    then show ?thesis
      by (simp only: all)
  qed
  show ?thesis
  proof (intro conjI impI)
    show "set (map RankedStock.ticker (ranked s)) \<inter> keys (failures s) = {}"
      using sub disj by blast
    show "set (map RankedStock.ticker (ranked s)) \<union> keys (failures s) \<subseteq> set tickers"
      using sub cover by blast
    show "distinct (map RankedStock.ticker (ranked s))" by (rule dist)
    show "distinct (map fst (failures s))" by (rule d2)
    show "keys (failures s) = {t \<in> set tickers. \<exists>m. ?F t = Inl (AnalysisError m)}" by (rule K)
    show "set (map RankedStock.ticker (ranked s)) \<subseteq> ?S" by (rule sub)
  next
    assume "top_n = None \<or> (\<exists>k. top_n = Some k \<and> int (card ?S) \<le> k)"
    from full [OF this] cover
    show "set (map RankedStock.ticker (ranked s)) \<union> keys (failures s) = set tickers"
      by (simp only:)
  qed
qed

theorem ranked_and_failures_partition_witness:
  "analyze_universe sample_market sample_tickers ''6mo'' (1 / 2) (3 / 10) (1 / 5) None =
     Inr \<lparr> ranked = [sample_ranked_AAA, sample_ranked_FFF, sample_ranked_BBB],
           failures = [(''CCC'', ''No price history available'')] \<rparr>
   \<and> set (map RankedStock.ticker [sample_ranked_AAA, sample_ranked_FFF, sample_ranked_BBB])
       \<inter> keys [(''CCC'', ''No price history available'')] = {}
   \<and> set (map RankedStock.ticker [sample_ranked_AAA, sample_ranked_FFF, sample_ranked_BBB])
       \<union> keys [(''CCC'', ''No price history available'')] = set sample_tickers"
proof -
  note run = sample_run_all [of "''6mo''"]
  note th = ranked_and_failures_partition [OF run, unfolded AnalysisSummary.select_convs]
  have "set (map RankedStock.ticker [sample_ranked_AAA, sample_ranked_FFF, sample_ranked_BBB])
       \<inter> keys [(''CCC'', ''No price history available'')] = {}"
    using th by (rule conjunct1)
  moreover
  have "set (map RankedStock.ticker [sample_ranked_AAA, sample_ranked_FFF, sample_ranked_BBB])
       \<union> keys [(''CCC'', ''No price history available'')] = set sample_tickers"
    using th by blast
  ultimately show ?thesis using run by (simp only: simp_thms)
qed

text \<open>
  Claim C1 as stated fails under a cap: with \<open>top_n = 2\<close> and three surviving tickers,
  \<open>BBB\<close> is an input ticker that is neither ranked nor in the failure map.
\<close>

theorem capped_run_loses_a_survivor:
  "analyze_universe sample_market sample_tickers ''6mo'' (1 / 2) (3 / 10) (1 / 5) (Some 2) =
     Inr \<lparr> ranked = [sample_ranked_AAA, sample_ranked_FFF],
           failures = [(''CCC'', ''No price history available'')] \<rparr>
   \<and> ''BBB'' \<in> set sample_tickers
   \<and> ''BBB'' \<notin> set (map RankedStock.ticker [sample_ranked_AAA, sample_ranked_FFF])
   \<and> ''BBB'' \<notin> keys [(''CCC'', ''No price history available'')]"
proof -
  have "''BBB'' \<in> set sample_tickers"
    by (simp add: sample_tickers_def)
  moreover have "''BBB'' \<notin> set (map RankedStock.ticker [sample_ranked_AAA, sample_ranked_FFF])"
    by (simp add: sample_ranked_tickers)
  moreover have "''BBB'' \<notin> keys [(''CCC'', ''No price history available'')]"
    by (simp add: keys_def)
  ultimately show ?thesis
    using sample_run_two [of "''6mo''"] by (simp only: simp_thms)
qed

text \<open>
  Claim C2. \<open>analyze_universe\<close> ends in an error in two cases, and the error is an
  \<open>AnalysisError\<close>. When some extraction raises an exception that is not an
  \<open>AnalysisError\<close>, the error of the run names the first such ticker and the text of its
  exception. When no extraction does and every ticker fails with an \<open>AnalysisError\<close>, the
  message lists every distinct ticker, in the order of the input, with its reason. When no
  extraction raises an unexpected exception and at least one succeeds, the run returns a
  summary whose failure map holds the tickers that failed with an \<open>AnalysisError\<close>, each
  with its reason.
\<close>

theorem fatal_errors:
  "(tickers = pre @ t # post \<and> (\<forall>u \<in> set pre. \<not> unexpected (fetch_analysis yf u period))
      \<and> fetch_analysis yf t period = Inl exc \<and> unexpected (fetch_analysis yf t period) \<longrightarrow>
      analyze_universe yf tickers period vw mw rw top_n =
        Inl (AnalysisError (''Failed to analyze '' @ t @ '': '' @ exn_str exc)))
   \<and> ((\<forall>u \<in> set tickers. \<exists>m. fetch_analysis yf u period = Inl (AnalysisError m)) \<longrightarrow>
        (\<exists>fails. analyze_universe yf tickers period vw mw rw top_n =
                   Inl (AnalysisError (no_tickers_message fails))
              \<and> map fst fails = first_occurrences tickers
              \<and> (\<forall>(u, m) \<in> set fails. fetch_analysis yf u period = Inl (AnalysisError m))))
   \<and> ((\<forall>u \<in> set tickers. \<not> unexpected (fetch_analysis yf u period))
        \<and> (\<exists>u \<in> set tickers. \<exists>a. fetch_analysis yf u period = Inr a) \<longrightarrow>
        (\<exists>s. analyze_universe yf tickers period vw mw rw top_n = Inr s
            \<and> map fst (failures s) =
                first_occurrences
                  (filter (\<lambda>u. \<exists>m. fetch_analysis yf u period = Inl (AnalysisError m)) tickers)
            \<and> (\<forall>(u, m) \<in> set (failures s). fetch_analysis yf u period = Inl (AnalysisError m))))
   \<and> (\<forall>e. analyze_universe yf tickers period vw mw rw top_n = Inl e \<longrightarrow>
          (\<exists>m. e = AnalysisError m))"
proof (intro conjI impI allI)
  let ?F = "\<lambda>u. fetch_analysis yf u period"
  assume "tickers = pre @ t # post \<and> (\<forall>u \<in> set pre. \<not> unexpected (?F u))
      \<and> ?F t = Inl exc \<and> unexpected (?F t)"
  then have "fetch_all ?F tickers [] [] =
      Inl (AnalysisError (''Failed to analyze '' @ t @ '': '' @ exn_str exc))"
    by (intro fetch_all_unexpected [of tickers pre t post]) blast+
  then show "analyze_universe yf tickers period vw mw rw top_n =
        Inl (AnalysisError (''Failed to analyze '' @ t @ '': '' @ exn_str exc))"
    by (rule analyze_universe_fetch_error)
next
  let ?F = "\<lambda>u. fetch_analysis yf u period"
  assume soft: "\<forall>u \<in> set tickers. \<exists>m. ?F u = Inl (AnalysisError m)"
  then have nu: "\<forall>u \<in> set tickers. \<not> unexpected (?F u)" by auto
  from fetch_all_total [OF nu] obtain analyses fails where
    f: "fetch_all ?F tickers [] [] = Inr (analyses, fails)" by blast
  have flt: "filter (\<lambda>u. \<exists>m. ?F u = Inl (AnalysisError m)) tickers = tickers"
    using soft by (simp add: filter_id_conv)
  have "keys analyses = {}"
    using fetch_all_Inr [OF f] soft by (auto simp: keys_map_of)
  then have e: "analyses = []" by (simp add: keys_def)
  have o: "map fst fails = first_occurrences tickers"
    using failures_order [OF f] by (simp only: flt)
  have "analyze_universe yf tickers period vw mw rw top_n =
      Inl (AnalysisError (no_tickers_message fails))"
    using f e by (intro analyze_universe_no_survivor) simp
  with o failures_reasons [OF f]
  show "\<exists>fails. analyze_universe yf tickers period vw mw rw top_n =
                   Inl (AnalysisError (no_tickers_message fails))
              \<and> map fst fails = first_occurrences tickers
              \<and> (\<forall>(u, m) \<in> set fails. ?F u = Inl (AnalysisError m))"
    by blast
next
  let ?F = "\<lambda>u. fetch_analysis yf u period"
  assume h: "(\<forall>u \<in> set tickers. \<not> unexpected (?F u)) \<and> (\<exists>u \<in> set tickers. \<exists>a. ?F u = Inr a)"
  then have nu: "\<forall>u \<in> set tickers. \<not> unexpected (?F u)" by simp
  from fetch_all_total [OF nu] obtain analyses fails where
    f: "fetch_all ?F tickers [] [] = Inr (analyses, fails)" by blast
  from h obtain u a where "u \<in> set tickers" "?F u = Inr a" by blast
  then have "u \<in> keys analyses"
    using fetch_all_Inr [OF f] by (auto simp: keys_map_of)
  then have ne: "analyses \<noteq> []" by (auto simp: keys_def)
  from analyze_universe_succeeds [OF f ne] obtain s where
    s: "analyze_universe yf tickers period vw mw rw top_n = Inr s" by blast
  from run_facts [OF s] f have fs: "failures s = fails" by auto
  have o: "map fst (failures s) =
      first_occurrences (filter (\<lambda>u. \<exists>m. ?F u = Inl (AnalysisError m)) tickers)"
    using failures_order [OF f] by (simp only: fs)
  from s o failures_reasons [OF f] fs
  show "\<exists>s. analyze_universe yf tickers period vw mw rw top_n = Inr s
            \<and> map fst (failures s) =
                first_occurrences
                  (filter (\<lambda>u. \<exists>m. ?F u = Inl (AnalysisError m)) tickers)
            \<and> (\<forall>(u, m) \<in> set (failures s). ?F u = Inl (AnalysisError m))"
    by blast
next
  fix e
  let ?F = "\<lambda>u. fetch_analysis yf u period"
  assume e: "analyze_universe yf tickers period vw mw rw top_n = Inl e"
  show "\<exists>m. e = AnalysisError m"
  proof (cases "fetch_all ?F tickers [] []")
    case (Inl e')
    from fetch_all_Inl [OF Inl] analyze_universe_fetch_error [OF Inl, of vw mw rw top_n] e
    show ?thesis by auto
  next
    case (Inr p)
    then obtain analyses fails where f: "fetch_all ?F tickers [] [] = Inr (analyses, fails)"
      by (cases p) auto
    show ?thesis
    proof (cases "analyses = []")
      case True
      with f analyze_universe_no_survivor [of yf period tickers fails vw mw rw top_n] e
      show ?thesis by auto
    next
      case False
      from analyze_universe_succeeds [OF f False, of vw mw rw top_n] e show ?thesis by auto
    qed
  qed
qed

theorem fatal_errors_witness:
  "unexpected (fetch_analysis sample_market ''DDD'' ''6mo'')
   \<and> analyze_universe sample_market [''AAA'', ''CCC'', ''DDD'', ''BBB''] ''6mo''
         (1 / 2) (3 / 10) (1 / 5) (Some 20) =
       Inl (AnalysisError ''Failed to analyze DDD: connection reset'')
   \<and> analyze_universe sample_market [''CCC'', ''EEE'', ''CCC''] ''6mo''
         (1 / 2) (3 / 10) (1 / 5) (Some 20) =
       Inl (AnalysisError (''Unable to analyze any tickers. Reasons: '' @
             ''CCC (No price history available), '' @
             ''EEE (Not enough price history to compute momentum)''))
   \<and> analyze_universe sample_market sample_tickers ''6mo'' (1 / 2) (3 / 10) (1 / 5) (Some 20) =
       Inr \<lparr> ranked = [sample_ranked_AAA, sample_ranked_FFF, sample_ranked_BBB],
             failures = [(''CCC'', ''No price history available'')] \<rparr>"
proof -
  let ?F = "\<lambda>u. fetch_analysis sample_market u ''6mo''"
  let ?run = "\<lambda>ts. analyze_universe sample_market ts ''6mo'' (1 / 2) (3 / 10) (1 / 5) (Some 20)"
  have u: "unexpected (?F ''DDD'')"
    by (simp add: fetch_DDD)
  have pre: "\<forall>u \<in> set [''AAA'', ''CCC'']. \<not> unexpected (?F u)"
    by (simp add: fetch_AAA fetch_CCC)
  have b: "?run [''AAA'', ''CCC'', ''DDD'', ''BBB''] =
      Inl (AnalysisError ''Failed to analyze DDD: connection reset'')"
    using fatal_errors [of "[''AAA'', ''CCC'', ''DDD'', ''BBB'']" "[''AAA'', ''CCC'']" "''DDD''"
        "[''BBB'']" sample_market "''6mo''" "ExternalError ''connection reset''"
        "1 / 2" "3 / 10" "1 / 5" "Some 20"] u pre
    by (simp add: fetch_DDD)
  have soft: "\<forall>u \<in> set [''CCC'', ''EEE'', ''CCC'']. \<exists>m. ?F u = Inl (AnalysisError m)"
    by (simp add: fetch_CCC fetch_EEE)
  from fatal_errors [of "[''CCC'', ''EEE'', ''CCC'']" _ _ _ sample_market "''6mo''" _
        "1 / 2" "3 / 10" "1 / 5" "Some 20"] soft
  obtain fails where
    r: "?run [''CCC'', ''EEE'', ''CCC''] = Inl (AnalysisError (no_tickers_message fails))"
    and k: "map fst fails = first_occurrences [''CCC'', ''EEE'', ''CCC'']"
    and m: "\<forall>(u, m) \<in> set fails. ?F u = Inl (AnalysisError m)"
    by blast
  from k obtain m1 m2 where fl: "fails = [(''CCC'', m1), (''EEE'', m2)]"
    by (auto simp: map_eq_Cons_conv)
  with m have "m1 = ''No price history available''"
    and "m2 = ''Not enough price history to compute momentum''"
    by (simp_all add: fetch_CCC fetch_EEE)
  with fl r have a: "?run [''CCC'', ''EEE'', ''CCC''] =
      Inl (AnalysisError (''Unable to analyze any tickers. Reasons: '' @
             ''CCC (No price history available), '' @
             ''EEE (Not enough price history to compute momentum)''))"
    by (simp add: no_tickers_message_def)
  have c: "?run sample_tickers =
      Inr \<lparr> ranked = [sample_ranked_AAA, sample_ranked_FFF, sample_ranked_BBB],
            failures = [(''CCC'', ''No price history available'')] \<rparr>"
    by (simp add: sample_run truncate_def py_slice_to_def)
  from u b a c show ?thesis by (simp only: simp_thms)
qed

text \<open>
  Claim C7. For every ranked stock, the value score is the mean of the normalized scores of
  those of P/E, P/B and free-cash-flow yield that are present in its analysis, and 0 when
  none is; the momentum and risk scores are the normalized momentum and the inverted
  normalized volatility; the composite score is the weighted sum of the three with the
  weights as given. The normalized scores are those of the vectors over the surviving
  tickers. Without a cap every surviving ticker is ranked.
\<close>

theorem scores_formula:
  assumes "analyze_universe yf tickers period vw mw rw top_n = Inr s"
  shows "\<exists>analyses.
      fetch_all (\<lambda>tick. fetch_analysis yf tick period) tickers [] [] = Inr (analyses, failures s)
    \<and> (\<forall>r \<in> set (ranked s).
          scored_by analyses vw mw rw r
        \<and> (pe_ratio (analysis r) = None \<and> pb_ratio (analysis r) = None
             \<and> free_cash_flow_yield (analysis r) = None \<longrightarrow> value_score r = 0)
        \<and> composite_score r = vw * value_score r + mw * momentum_score r + rw * risk_score r)
    \<and> (top_n = None \<longrightarrow> set (map RankedStock.ticker (ranked s)) = keys analyses)"
proof -
  from run_facts [OF assms] obtain analyses :: "(string, StockAnalysis) dict"
    and scored :: "RankedStock list" where
    f: "fetch_all (\<lambda>tick. fetch_analysis yf tick period) tickers [] [] = Inr (analyses, failures s)"
    and t1: "map RankedStock.ticker scored = map fst analyses"
    and sc: "\<forall>r \<in> set scored. scored_by analyses vw mw rw r"
    and r: "ranked s = take (cut top_n (length scored)) (sort_reverse composite_score scored)"
    by blast
  have sub: "set (ranked s) \<subseteq> set scored"
    unfolding r using set_take_subset [of _ "sort_reverse composite_score scored"]
    by (simp add: set_sort_reverse)
  have one: "scored_by analyses vw mw rw x
        \<and> (pe_ratio (analysis x) = None \<and> pb_ratio (analysis x) = None
             \<and> free_cash_flow_yield (analysis x) = None \<longrightarrow> value_score x = 0)
        \<and> composite_score x = vw * value_score x + mw * momentum_score x + rw * risk_score x"
    if "x \<in> set (ranked s)" for x
  proof -
    from that sub sc have s: "scored_by analyses vw mw rw x" by blast
    then have "composite_score x = vw * value_score x + mw * momentum_score x + rw * risk_score x"
      by (auto simp: scored_by_def)
    moreover have "value_score x = 0"
      if "pe_ratio (analysis x) = None \<and> pb_ratio (analysis x) = None
             \<and> free_cash_flow_yield (analysis x) = None"
      using s that by (auto simp: scored_by_def present_mean_none)
    ultimately show ?thesis using s by blast
  qed
  have all: "set (map RankedStock.ticker (ranked s)) = keys analyses" if "top_n = None"
  proof -
    from that have "ranked s = sort_reverse composite_score scored"
      by (simp add: r cut_def length_sort_reverse)
    then have "set (map RankedStock.ticker (ranked s)) = set (map RankedStock.ticker scored)"
      by (simp add: set_sort_reverse)
    also have "\<dots> = set (map fst analyses)" by (simp only: t1)
    finally show ?thesis by (simp add: keys_def)
  qed
  from f one all show ?thesis by blast
qed

theorem scores_formula_witness:
  "analyze_universe sample_market sample_tickers ''6mo'' (1 / 2) (3 / 10) (1 / 5) None =
     Inr \<lparr> ranked = [sample_ranked_AAA, sample_ranked_FFF, sample_ranked_BBB],
           failures = [(''CCC'', ''No price history available'')] \<rparr>
   \<and> scored_by [(''BBB'', sample_BBB), (''AAA'', sample_AAA), (''FFF'', sample_FFF)]
        (1 / 2) (3 / 10) (1 / 5) sample_ranked_FFF
   \<and> value_score sample_ranked_FFF = 1 / 2
   \<and> composite_score sample_ranked_FFF =
        1 / 2 * value_score sample_ranked_FFF + 3 / 10 * momentum_score sample_ranked_FFF
        + 1 / 5 * risk_score sample_ranked_FFF"
proof -
  note run = sample_run_all [of "''6mo''"]
  from scores_formula [OF run, unfolded AnalysisSummary.select_convs sample_fetch_all]
  obtain analyses where
    a: "Inr ([(''BBB'', sample_BBB), (''AAA'', sample_AAA), (''FFF'', sample_FFF)],
             [(''CCC'', ''No price history available'')]) =
        (Inr (analyses, [(''CCC'', ''No price history available'')])
          :: exn + (string, StockAnalysis) dict \<times> (string, string) dict)"
    and sc: "\<forall>r \<in> set [sample_ranked_AAA, sample_ranked_FFF, sample_ranked_BBB].
        scored_by analyses (1 / 2) (3 / 10) (1 / 5) r
      \<and> composite_score r =
          1 / 2 * value_score r + 3 / 10 * momentum_score r + 1 / 5 * risk_score r"
    by blast
  from a have "analyses = [(''BBB'', sample_BBB), (''AAA'', sample_AAA), (''FFF'', sample_FFF)]"
    by simp
  with sc
  have "scored_by [(''BBB'', sample_BBB), (''AAA'', sample_AAA), (''FFF'', sample_FFF)]
        (1 / 2) (3 / 10) (1 / 5) sample_ranked_FFF"
    and "composite_score sample_ranked_FFF =
        1 / 2 * value_score sample_ranked_FFF + 3 / 10 * momentum_score sample_ranked_FFF
        + 1 / 5 * risk_score sample_ranked_FFF"
    by simp_all
  moreover have "value_score sample_ranked_FFF = 1 / 2"
    by (simp add: sample_ranked_FFF_def)
  ultimately show ?thesis
    using run by (simp only: simp_thms)
qed






text \<open>
  Claim C10. An analysis that \<open>fetch_analysis\<close> returns has its momentum and its
  volatility set. So the momentum and volatility vectors over the surviving tickers hold
  no absent value, and neither does the analysis of any ranked stock.
\<close>

theorem survivors_have_momentum_and_volatility:
  "(fetch_analysis yf t period = Inr a \<longrightarrow>
      (\<exists>m v. momentum_21d a = Some m \<and> volatility_21d a = Some v))
   \<and> (fetch_all (\<lambda>tick. fetch_analysis yf tick period) tickers [] [] = Inr (analyses, fails) \<longrightarrow>
        (\<forall>(tick, v) \<in> set (vector_of momentum_21d analyses). v \<noteq> None)
      \<and> (\<forall>(tick, v) \<in> set (vector_of volatility_21d analyses). v \<noteq> None))
   \<and> (analyze_universe yf tickers period vw mw rw top_n = Inr s \<longrightarrow>
        (\<forall>r \<in> set (ranked s).
           momentum_21d (analysis r) \<noteq> None \<and> volatility_21d (analysis r) \<noteq> None))"
proof (intro conjI impI)
  assume "fetch_analysis yf t period = Inr a"
  then show "\<exists>m v. momentum_21d a = Some m \<and> volatility_21d a = Some v"
    using fetch_analysis_sets_both by blast
next
  assume f: "fetch_all (\<lambda>tick. fetch_analysis yf tick period) tickers [] [] = Inr (analyses, fails)"
  have both: "momentum_21d a \<noteq> None \<and> volatility_21d a \<noteq> None" if "(tick, a) \<in> set analyses" for tick a
    using fetch_analysis_sets_both [OF survivors_fetched [OF f that]] by auto
  show "\<forall>(tick, v) \<in> set (vector_of momentum_21d analyses). v \<noteq> None"
    using both by (auto simp: vector_of_def)
  show "\<forall>(tick, v) \<in> set (vector_of volatility_21d analyses). v \<noteq> None"
    using both by (auto simp: vector_of_def)
next
  assume run: "analyze_universe yf tickers period vw mw rw top_n = Inr s"
  from run_facts [OF run] obtain analyses :: "(string, StockAnalysis) dict"
    and scored :: "RankedStock list" where
    f: "fetch_all (\<lambda>tick. fetch_analysis yf tick period) tickers [] [] = Inr (analyses, failures s)"
    and t2: "map analysis scored = map snd analyses"
    and r: "ranked s = take (cut top_n (length scored)) (sort_reverse composite_score scored)"
    by blast
  have both: "momentum_21d a \<noteq> None \<and> volatility_21d a \<noteq> None" if "(tick, a) \<in> set analyses" for tick a
    using fetch_analysis_sets_both [OF survivors_fetched [OF f that]] by auto
  show "\<forall>r \<in> set (ranked s). momentum_21d (analysis r) \<noteq> None \<and> volatility_21d (analysis r) \<noteq> None"
  proof
    fix x assume "x \<in> set (ranked s)"
    then have "x \<in> set scored"
      unfolding r using set_take_subset [of _ "sort_reverse composite_score scored"]
      by (auto simp: set_sort_reverse)
    then have "analysis x \<in> set (map analysis scored)" by simp
    then have "analysis x \<in> snd ` set analyses" by (simp add: t2)
    then obtain tick where "(tick, analysis x) \<in> set analyses" by force
    from both [OF this]
    show "momentum_21d (analysis x) \<noteq> None \<and> volatility_21d (analysis x) \<noteq> None" .
  qed
qed

theorem survivors_have_momentum_and_volatility_witness:
  "fetch_analysis sample_market ''BBB'' ''6mo'' = Inr sample_BBB
   \<and> momentum_21d sample_BBB = Some (Fin (1 / 5))
   \<and> volatility_21d sample_BBB = Some (Fin (3 / 25))
   \<and> list_all (\<lambda>(tick, v). v \<noteq> None)
        (vector_of momentum_21d
           [(''BBB'', sample_BBB), (''AAA'', sample_AAA), (''FFF'', sample_FFF)])
   \<and> list_all (\<lambda>r. momentum_21d (analysis r) \<noteq> None \<and> volatility_21d (analysis r) \<noteq> None)
        [sample_ranked_AAA, sample_ranked_FFF, sample_ranked_BBB]"
  using survivors_have_momentum_and_volatility
    [of sample_market "''BBB''" "''6mo''" sample_BBB sample_tickers
      "[(''BBB'', sample_BBB), (''AAA'', sample_AAA), (''FFF'', sample_FFF)]"
      "[(''CCC'', ''No price history available'')]" "1 / 2" "3 / 10" "1 / 5" None
      "\<lparr> ranked = [sample_ranked_AAA, sample_ranked_FFF, sample_ranked_BBB],
         failures = [(''CCC'', ''No price history available'')] \<rparr>"]
    fetch_BBB [of "''6mo''"] sample_fetch_all [of "''6mo''"] sample_run [of "''6mo''" None]
  by (simp add: list_all_iff truncate_def sample_fields)

end
